theory Spec2Isabelle
  imports Main
begin

section \<open>JavaScript strings\<close>

text \<open>
  A JavaScript string is modelled as a \<^typ>\<open>string\<close>: a list of code units, here
  restricted to the code units below 256. In that range the class \<open>\s\<close> of a regular
  expression and the characters removed by \<open>String.prototype.trim\<close> are TAB, LF, VT,
  FF, CR, SPACE and NBSP, and the line terminators (which \<open>.\<close> does not match and after
  which \<open>^\<close> matches under the \<open>m\<close> flag) are LF and CR.
\<close>

definition isLineTerminator :: "char \<Rightarrow> bool" where
  "isLineTerminator c = (c = CHR 0x0A \<or> c = CHR 0x0D)"

definition isWhiteSpace :: "char \<Rightarrow> bool" where
  "isWhiteSpace c =
     (c = CHR 0x09 \<or> c = CHR 0x0A \<or> c = CHR 0x0B \<or> c = CHR 0x0C \<or> c = CHR 0x0D \<or>
      c = CHR 0x20 \<or> c = CHR 0xA0)"

text \<open>\<open>s.trim()\<close>\<close>

definition trim :: "string \<Rightarrow> string" where
  "trim s = rev (dropWhile isWhiteSpace (rev (dropWhile isWhiteSpace s)))"

text \<open>\<open>s.startsWith(p)\<close> and its mirror image, used for the \<open>$\<close>-anchored patterns.\<close>

definition startsWith :: "string \<Rightarrow> string \<Rightarrow> bool" where
  "startsWith s p = (take (length p) s = p)"

definition endsWith :: "string \<Rightarrow> string \<Rightarrow> bool" where
  "endsWith s p = (length p \<le> length s \<and> drop (length s - length p) s = p)"

text \<open>\<open>s.replace(/^p/, "")\<close> and \<open>s.replace(/p$/, "")\<close> for a literal \<open>p\<close>.\<close>

definition stripLeading :: "string \<Rightarrow> string \<Rightarrow> string" where
  "stripLeading p s = (if startsWith s p then drop (length p) s else s)"

definition stripTrailing :: "string \<Rightarrow> string \<Rightarrow> string" where
  "stripTrailing p s = (if endsWith s p then take (length s - length p) s else s)"

text \<open>\<open>s.indexOf(pat)\<close>: the index of the first occurrence, \<open>None\<close> for \<open>-1\<close>.\<close>

fun indexOf :: "string \<Rightarrow> string \<Rightarrow> nat option" where
  "indexOf pat [] = (if pat = [] then Some 0 else None)"
| "indexOf pat (c # cs) =
     (if startsWith (c # cs) pat then Some 0 else map_option Suc (indexOf pat cs))"

section \<open>Data model of \<open>src/check-links.ts\<close>\<close>

datatype LinkType = Absolute | Relative

datatype Template = NoLinks | AllUpdated | Pending

record Link =
  url :: string
  type :: LinkType

record 'l FileResult =
  filename :: string
  links :: "'l list"

text \<open>
  The comment patterns. Each regular expression of \<open>COMMENT_PATTERNS\<close> has one of two
  shapes: \<open>/^marker(?<url>.*)/gm\<close>, a marker at the start of a line and the rest of the
  line, or \<open>/^open(?<url>[\s\S]*?)close/gm\<close>, an opening marker at the start of a line and
  the shortest text up to the closing marker.
\<close>

datatype CommentRegex = LinePattern string | BlockPattern string string

record CommentPattern =
  name :: string
  regex :: CommentRegex

definition COMMENT_PATTERNS :: "CommentPattern list" where
  "COMMENT_PATTERNS =
     [\<lparr>name = ''C-style single'', regex = LinePattern ''//''\<rparr>,
      \<lparr>name = ''C-style multi'', regex = BlockPattern ''/*'' ''*/''\<rparr>,
      \<lparr>name = ''Hash'', regex = LinePattern ''#''\<rparr>,
      \<lparr>name = ''HTML'', regex = BlockPattern ''<!--'' ''-->''\<rparr>,
      \<lparr>name = ''SQL'', regex = LinePattern ''--''\<rparr>]"

section \<open>Comment extraction\<close>

text \<open>
  One attempt to match a comment pattern at the head of the input (the caller has checked
  \<open>^\<close>): the text of the group \<open>url\<close> and the length of the whole match.
\<close>

fun matchComment :: "CommentRegex \<Rightarrow> string \<Rightarrow> (string \<times> nat) option" where
  "matchComment (LinePattern marker) s =
     (if startsWith s marker
      then (let g = takeWhile (\<lambda>c. \<not> isLineTerminator c) (drop (length marker) s)
            in Some (g, length marker + length g))
      else None)"
| "matchComment (BlockPattern opening closing) s =
     (if startsWith s opening
      then (case indexOf closing (drop (length opening) s) of
              None \<Rightarrow> None
            | Some k \<Rightarrow>
                Some (take k (drop (length opening) s), length opening + k + length closing))
      else None)"

text \<open>
  \<open>content.matchAll(regex)\<close> for a pattern with the flags \<open>gm\<close>: the input is scanned
  from the left, a match is tried where the previous code unit is a line terminator (or at
  index 0), and the scan resumes at the end of a match. The flag tells whether the head of
  the remaining input is at the start of a line.
\<close>

fun matchAllComments :: "CommentRegex \<Rightarrow> bool \<Rightarrow> string \<Rightarrow> string list" where
  "matchAllComments r atLineStart [] = []"
| "matchAllComments r atLineStart (c # cs) =
     (case (if atLineStart then matchComment r (c # cs) else None) of
        Some (g, n) \<Rightarrow>
          g # matchAllComments r (isLineTerminator (last (take (max 1 n) (c # cs))))
                (drop (n - 1) cs)
      | None \<Rightarrow> matchAllComments r (isLineTerminator c) cs)"

definition extractComments :: "string \<Rightarrow> string list" where
  "extractComments content =
     concat (map (\<lambda>pattern. map trim (matchAllComments (regex pattern) True content))
               COMMENT_PATTERNS)"

section \<open>Link extraction\<close>

text \<open>The class \<open>[^\s<>"'{}|\\^`[\]]\<close> of both link patterns.\<close>

definition linkChar :: "char \<Rightarrow> bool" where
  "linkChar c =
     (\<not> isWhiteSpace c \<and> c \<noteq> CHR ''<'' \<and> c \<noteq> CHR ''>'' \<and> c \<noteq> CHR 0x22 \<and> c \<noteq> CHR 0x27 \<and>
      c \<noteq> CHR ''{'' \<and> c \<noteq> CHR ''}'' \<and> c \<noteq> CHR ''|'' \<and> c \<noteq> CHR 0x5C \<and> c \<noteq> CHR ''^'' \<and>
      c \<noteq> CHR 0x60 \<and> c \<noteq> CHR ''['' \<and> c \<noteq> CHR '']'')"

text \<open>
  A literal lead followed by the longest non-empty run of the class: the tail
  \<open>lead[^...]+\<close> that both patterns share.
\<close>

definition matchLead :: "string \<Rightarrow> string \<Rightarrow> string option" where
  "matchLead lead s =
     (if startsWith s lead
      then (let run = takeWhile linkChar (drop (length lead) s)
            in if run = [] then None else Some (lead @ run))
      else None)"

text \<open>
  \<open>ABSOLUTE_URL_PATTERN = /https?:\/\/[^\s<>"'{}|\\^`[\]]+/\<close> tried at the head of the
  input. The optional \<open>s\<close> is greedy, so \<open>https://\<close> is tried before \<open>http://\<close>.
\<close>

definition matchAbsoluteUrl :: "string \<Rightarrow> string option" where
  "matchAbsoluteUrl s =
     (case matchLead ''https://'' s of
        Some w \<Rightarrow> Some w
      | None \<Rightarrow> matchLead ''http://'' s)"

text \<open>
  \<open>RELATIVE_PATH_PATTERN = /(?:\.\.?\/|\/)[^\s<>"'{}|\\^`[\]]+/\<close> tried at the head of
  the input: the alternatives in the order in which the backtracking matcher tries them.
\<close>

definition matchRelativePath :: "string \<Rightarrow> string option" where
  "matchRelativePath s =
     (case matchLead ''../'' s of
        Some w \<Rightarrow> Some w
      | None \<Rightarrow>
          (case matchLead ''./'' s of
             Some w \<Rightarrow> Some w
           | None \<Rightarrow> matchLead ''/'' s))"

text \<open>
  \<open>s.match(pattern)\<close> for a pattern with the flag \<open>g\<close>: all matches from the left, the
  scan resuming at the end of a match (one code unit further after an empty match). The
  empty list stands for \<open>null\<close>.
\<close>

fun globalMatch :: "(string \<Rightarrow> string option) \<Rightarrow> string \<Rightarrow> string list" where
  "globalMatch m [] = (case m [] of Some w \<Rightarrow> [w] | None \<Rightarrow> [])"
| "globalMatch m (c # cs) =
     (case m (c # cs) of
        Some w \<Rightarrow> w # globalMatch m (drop (length w - 1) cs)
      | None \<Rightarrow> globalMatch m cs)"

text \<open>\<open>Set.prototype.add\<close> on a set kept in insertion order.\<close>

definition setAdd :: "string list \<Rightarrow> string \<Rightarrow> string list" where
  "setAdd s x = (if x \<in> set s then s else s @ [x])"

text \<open>
  The chain of \<open>replace\<close> calls that removes comment syntax. The second call has the flag
  \<open>g\<close> and two alternatives: a leading \<open>/*\<close> and, in what follows it, a trailing \<open>*/\<close>.
\<close>

definition cleanComment :: "string \<Rightarrow> string" where
  "cleanComment comment =
     stripTrailing ''-->''
       (stripLeading ''<!--''
         (stripLeading ''--''
           (stripLeading ''#''
             (stripTrailing ''*/'' (stripLeading ''/*''
               (stripLeading ''//'' comment))))))"

text \<open>The matches of one comment in the order in which the loop body adds them.\<close>

definition commentMatches :: "string \<Rightarrow> string list" where
  "commentMatches comment =
     (let clean = cleanComment comment
      in map trim (globalMatch matchAbsoluteUrl clean) @
         map trim (globalMatch matchRelativePath clean))"

definition extractLinks :: "string list \<Rightarrow> string list" where
  "extractLinks comments =
     foldl (\<lambda>ls comment. foldl setAdd ls (commentMatches comment)) [] comments"

section \<open>Scanning the changed files\<close>

text \<open>
  \<open>getFileContent\<close> is the parameter \<open>readFile\<close>: \<open>None\<close> when reading the file raises.
  A file whose content is empty is dropped by \<open>!content\<close> as well.
\<close>

definition classify :: "string \<Rightarrow> Link" where
  "classify link =
     \<lparr>url = link, type = (if startsWith link ''http'' then Absolute else Relative)\<rparr>"

definition parseFile :: "(string \<Rightarrow> string option) \<Rightarrow> string \<Rightarrow> Link FileResult option" where
  "parseFile readFile file =
     (case readFile file of
        None \<Rightarrow> None
      | Some content \<Rightarrow>
          if content = [] then None
          else (let ls = extractLinks (extractComments content)
                in if ls = [] then None
                   else Some \<lparr>filename = file, links = map classify ls\<rparr>))"

definition parseFilesForLinks ::
  "(string \<Rightarrow> string option) \<Rightarrow> string list \<Rightarrow> Link FileResult list" where
  "parseFilesForLinks readFile files = List.map_filter (parseFile readFile) files"

section \<open>Paths\<close>

text \<open>
  The functions of Node's POSIX \<open>path\<close> module that the program calls. They are library
  code; they are modelled on path segments, which is how the library's scanning loops act
  on their input. \<open>process.cwd()\<close> is the parameter \<open>cwd\<close>.
\<close>

fun splitSlash :: "string \<Rightarrow> string list" where
  "splitSlash [] = [[]]"
| "splitSlash (c # cs) =
     (if c = CHR ''/'' then [] # splitSlash cs
      else (case splitSlash cs of [] \<Rightarrow> [[c]] | seg # segs \<Rightarrow> (c # seg) # segs))"

fun joinSlash :: "string list \<Rightarrow> string" where
  "joinSlash [] = []"
| "joinSlash [seg] = seg"
| "joinSlash (seg # segs) = seg @ ''/'' @ joinSlash segs"

text \<open>
  One segment of \<open>normalizeString\<close>: empty segments and \<open>.\<close> are skipped, \<open>..\<close> removes
  the last segment kept so far unless there is none or it is \<open>..\<close> itself, in which case
  it is kept only where the path may climb above its start.
\<close>

definition normalizeSegment :: "bool \<Rightarrow> string list \<Rightarrow> string \<Rightarrow> string list" where
  "normalizeSegment allowAboveRoot res seg =
     (if seg = [] \<or> seg = ''.'' then res
      else if seg = ''..'' then
        (if res \<noteq> [] \<and> last res \<noteq> ''..'' then butlast res
         else if allowAboveRoot then res @ [''..''] else res)
      else res @ [seg])"

definition normalizeSegments :: "bool \<Rightarrow> string \<Rightarrow> string list" where
  "normalizeSegments allowAboveRoot path =
     foldl (normalizeSegment allowAboveRoot) [] (splitSlash path)"

definition normalizeString :: "string \<Rightarrow> bool \<Rightarrow> string" where
  "normalizeString path allowAboveRoot = joinSlash (normalizeSegments allowAboveRoot path)"

definition isAbsolute :: "string \<Rightarrow> bool" where
  "isAbsolute path = (case path of [] \<Rightarrow> False | c # _ \<Rightarrow> c = CHR ''/'')"

text \<open>
  The loop of \<open>path.resolve\<close>: the arguments from the last to the first, then the working
  directory, each prepended until an absolute one has been prepended. The list holds the
  arguments still to visit, last argument first.
\<close>

fun resolveLoop :: "string \<Rightarrow> string list \<Rightarrow> string \<Rightarrow> string \<times> bool" where
  "resolveLoop cwd [] resolvedPath =
     (if cwd = [] then (resolvedPath, False)
      else (cwd @ ''/'' @ resolvedPath, isAbsolute cwd))"
| "resolveLoop cwd (path # paths) resolvedPath =
     (if path = [] then resolveLoop cwd paths resolvedPath
      else if isAbsolute path then (path @ ''/'' @ resolvedPath, True)
      else resolveLoop cwd paths (path @ ''/'' @ resolvedPath))"

definition resolve :: "string \<Rightarrow> string list \<Rightarrow> string" where
  "resolve cwd args =
     (case resolveLoop cwd (rev args) [] of
        (resolvedPath, resolvedAbsolute) \<Rightarrow>
          (let normalized = normalizeString resolvedPath (\<not> resolvedAbsolute)
           in if resolvedAbsolute then ''/'' @ normalized
              else if normalized \<noteq> [] then normalized else ''.''))"

text \<open>
  \<open>path.dirname\<close>: scanning from the end down to index 1, trailing slashes are skipped,
  then the last segment, and \<open>end\<close> is the index of the slash found before it.
\<close>

definition dirname :: "string \<Rightarrow> string" where
  "dirname path =
     (case path of
        [] \<Rightarrow> ''.''
      | c # cs \<Rightarrow>
          (let hasRoot = (c = CHR ''/'');
               afterSlashes = dropWhile (\<lambda>x. x = CHR ''/'') (rev cs);
               fromSlash = dropWhile (\<lambda>x. x \<noteq> CHR ''/'') afterSlashes
           in case fromSlash of
                [] \<Rightarrow> (if hasRoot then ''/'' else ''.'')
              | _ # front \<Rightarrow>
                  (if hasRoot \<and> length front = 0 then ''//''
                   else take (length front + 1) path)))"

text \<open>The segments of an absolute path that \<open>resolve\<close> returned.\<close>

definition pathSegments :: "string \<Rightarrow> string list" where
  "pathSegments path = filter (\<lambda>seg. seg \<noteq> []) (splitSlash path)"

fun commonPrefix :: "string list \<Rightarrow> string list \<Rightarrow> string list" where
  "commonPrefix (x # xs) (y # ys) = (if x = y then x # commonPrefix xs ys else [])"
| "commonPrefix _ _ = []"

text \<open>
  \<open>path.relative\<close>: both paths resolved, one \<open>..\<close> for each segment of \<open>from\<close> after the
  common leading segments, then the segments of \<open>to\<close> after them.
\<close>

definition relative :: "string \<Rightarrow> string \<Rightarrow> string \<Rightarrow> string" where
  "relative cwd from to =
     (if from = to then []
      else (let fromSegs = pathSegments (resolve cwd [from]);
                toSegs = pathSegments (resolve cwd [to]);
                common = length (commonPrefix fromSegs toSegs)
            in joinSlash (replicate (length fromSegs - common) ''..'' @ drop common toSegs)))"

section \<open>The completeness decision\<close>

text \<open>The inner and the outer loop of \<open>checkAllLinksUpdated\<close>; \<open>return false\<close> leaves both.\<close>

fun linksUpdated :: "string \<Rightarrow> string list \<Rightarrow> string \<Rightarrow> Link list \<Rightarrow> bool" where
  "linksUpdated cwd changedFilePaths file [] = True"
| "linksUpdated cwd changedFilePaths file (link # rest) =
     (if type link = Absolute then False
      else (let resolvedPath = resolve cwd [cwd, dirname file, url link]
            in if resolvedPath \<notin> set changedFilePaths then False
               else linksUpdated cwd changedFilePaths file rest))"

fun resultsUpdated :: "string \<Rightarrow> string list \<Rightarrow> Link FileResult list \<Rightarrow> bool" where
  "resultsUpdated cwd changedFilePaths [] = True"
| "resultsUpdated cwd changedFilePaths (result # rest) =
     (if linksUpdated cwd changedFilePaths (filename result) (links result)
      then resultsUpdated cwd changedFilePaths rest
      else False)"

definition checkAllLinksUpdated :: "string \<Rightarrow> Link FileResult list \<Rightarrow> string list \<Rightarrow> bool" where
  "checkAllLinksUpdated cwd results changedFiles =
     (let changedFilePaths = map (\<lambda>f. resolve cwd [f]) changedFiles
      in resultsUpdated cwd changedFilePaths results)"

section \<open>Rendering the report\<close>

text \<open>
  What the source throws: \<open>Error("Template not found: " + templatePath)\<close> in
  \<open>executeTemplate\<close> and \<open>Error("PR number not found")\<close> in \<open>main\<close>.
\<close>

datatype error = TemplateNotFound string | PRNumberNotFound

text \<open>\<open>templatePathsMap\<close>; \<open>process.env.ACTION_PATH\<close> is the parameter \<open>actionPath\<close>.\<close>

fun templatePathsMap :: "string \<Rightarrow> string \<Rightarrow> Template \<Rightarrow> string" where
  "templatePathsMap cwd actionPath NoLinks = resolve cwd [actionPath, ''templates/no-links.md'']"
| "templatePathsMap cwd actionPath AllUpdated =
     resolve cwd [actionPath, ''templates/all-updated.md'']"
| "templatePathsMap cwd actionPath Pending = resolve cwd [actionPath, ''templates/pending.md'']"

text \<open>\<open>String(n)\<close> for a count: its decimal digits.\<close>

definition digitChar :: "nat \<Rightarrow> char" where
  "digitChar d = ''0123456789'' ! (d mod 10)"

function decimal :: "nat \<Rightarrow> string" where
  "decimal n = (if n < 10 then [digitChar n] else decimal (n div 10) @ [digitChar (n mod 10)])"
  by pat_completeness auto
termination
  by (relation "measure (\<lambda>n. n)") auto

declare decimal.simps [simp del]

text \<open>
  \<open>s.replace(pattern, replacement)\<close> with a string pattern: the first occurrence only.
  The replacement text is expanded as the language prescribes: \<open>$$\<close> is a dollar sign,
  \<open>$&\<close> the matched text, \<open>$`\<close> the text before the match and \<open>$'\<close> the text after
  it; a string pattern has no groups, so every other \<open>$\<close> stands for itself.
\<close>

fun getSubstitution :: "string \<Rightarrow> string \<Rightarrow> string \<Rightarrow> string \<Rightarrow> string" where
  "getSubstitution matched pre post (c # d # rest) =
     (if c = CHR ''$'' \<and> d = CHR ''$'' then CHR ''$'' # getSubstitution matched pre post rest
      else if c = CHR ''$'' \<and> d = CHR ''&'' then matched @ getSubstitution matched pre post rest
      else if c = CHR ''$'' \<and> d = CHR 0x60 then pre @ getSubstitution matched pre post rest
      else if c = CHR ''$'' \<and> d = CHR 0x27 then post @ getSubstitution matched pre post rest
      else c # getSubstitution matched pre post (d # rest))"
| "getSubstitution matched pre post rest = rest"

definition replace :: "string \<Rightarrow> string \<Rightarrow> string \<Rightarrow> string" where
  "replace s pattern replacement =
     (case indexOf pattern s of
        None \<Rightarrow> s
      | Some i \<Rightarrow>
          (let pre = take i s; post = drop (i + length pattern) s
           in pre @ getSubstitution pattern pre post replacement @ post))"

text \<open>
  \<open>executeTemplate\<close>. \<open>!template\<close> holds for \<open>null\<close> (the file could not be read) and
  for the empty string. The optional parameters are options; \<open>??\<close> supplies the defaults.
\<close>

definition executeTemplate ::
  "(string \<Rightarrow> string option) \<Rightarrow> (Template \<Rightarrow> string) \<Rightarrow> Template \<Rightarrow> nat option \<Rightarrow> string option
     \<Rightarrow> error + string" where
  "executeTemplate readFile paths templateName linkCount linksOutput =
     (let templatePath = paths templateName
      in case readFile templatePath of
           None \<Rightarrow> Inl (TemplateNotFound templatePath)
         | Some template \<Rightarrow>
             if template = [] then Inl (TemplateNotFound templatePath)
             else Inr (replace
                        (replace template ''{{LINK_COUNT}}''
                           (decimal (case linkCount of None \<Rightarrow> 0 | Some n \<Rightarrow> n)))
                        ''{{LINKS}}''
                        (case linksOutput of None \<Rightarrow> [] | Some out \<Rightarrow> out)))"

text \<open>The string values of the enum \<open>LinkType\<close>.\<close>

fun linkTypeText :: "LinkType \<Rightarrow> string" where
  "linkTypeText Absolute = ''absolute''"
| "linkTypeText Relative = ''relative''"

text \<open>
  \<open>relativePath\<close> in \<open>compileTemplateFromLinks\<close>: the link joined to the directory of
  its file, then taken relative to the working directory.
\<close>

definition relativePathOf :: "string \<Rightarrow> string \<Rightarrow> string \<Rightarrow> string" where
  "relativePathOf cwd file link =
     (let resolvedPath = resolve cwd [cwd, dirname file, link]
      in relative cwd cwd resolvedPath)"

definition blobUrl :: "string \<Rightarrow> string \<Rightarrow> string \<Rightarrow> string \<Rightarrow> string" where
  "blobUrl owner repo sha p =
     ''https://github.com/'' @ owner @ ''/'' @ repo @ ''/blob/'' @ sha @ ''/'' @ p"

text \<open>
  The text appended to \<open>linksMarkdown\<close> for one link. The arrow U+2192 of the source
  is written as the three bytes of its UTF-8 form.
\<close>

definition rightArrow :: string where
  "rightArrow = [CHR 0xE2, CHR 0x86, CHR 0x92]"

definition linkMarkdown :: "string \<Rightarrow> string \<Rightarrow> string \<Rightarrow> string \<Rightarrow> string \<Rightarrow> Link \<Rightarrow> string" where
  "linkMarkdown cwd owner repo sha file link =
     (let fileLink = ''['' @ [CHR 0x60] @ file @ [CHR 0x60] @ '']('' @ blobUrl owner repo sha file @ '')''
      in ''- '' @ [CHR 0x60] @ url link @ [CHR 0x60] @ '' ('' @ linkTypeText (type link) @ '')'' @ [CHR 0x0A] @
         (if type link = Relative
          then (let relativePath = relativePathOf cwd file (url link)
                in ''  '' @ rightArrow @ '' ['' @ [CHR 0x60] @ relativePath @ [CHR 0x60] @ '']('' @
                   blobUrl owner repo sha relativePath @ '')'' @ [CHR 0x0A])
          else []) @
         ''  Referenced in: '' @ fileLink @ [CHR 0x0A, CHR 0x0A])"

definition linksMarkdownOf ::
  "string \<Rightarrow> string \<Rightarrow> string \<Rightarrow> string \<Rightarrow> Link FileResult list \<Rightarrow> string" where
  "linksMarkdownOf cwd owner repo sha results =
     concat (map (\<lambda>result.
        concat (map (linkMarkdown cwd owner repo sha (filename result)) (links result))) results)"

text \<open>
  The template that \<open>compileTemplateFromLinks\<close> passes to \<open>executeTemplate\<close>:
  \<open>Template.NoLinks\<close> on its early return, \<open>templateName\<close> otherwise.
\<close>

definition chosenTemplate :: "string \<Rightarrow> Link FileResult list \<Rightarrow> string list \<Rightarrow> Template" where
  "chosenTemplate cwd results changedFiles =
     (let allLinksRelativeAndTouched =
            (results \<noteq> [] \<and> checkAllLinksUpdated cwd results changedFiles)
      in if results = [] then NoLinks
         else if allLinksRelativeAndTouched then AllUpdated else Pending)"

definition compileTemplateFromLinks ::
  "(string \<Rightarrow> string option) \<Rightarrow> string \<Rightarrow> string \<Rightarrow> string \<Rightarrow> string \<Rightarrow> string
     \<Rightarrow> Link FileResult list \<Rightarrow> string list \<Rightarrow> error + string" where
  "compileTemplateFromLinks readFile cwd actionPath owner repo sha results changedFiles =
     (let allLinksRelativeAndTouched =
            (results \<noteq> [] \<and> checkAllLinksUpdated cwd results changedFiles)
      in if results = [] then
           executeTemplate readFile (templatePathsMap cwd actionPath) NoLinks None None
         else
           (let templateName = (if allLinksRelativeAndTouched then AllUpdated else Pending);
                linksMarkdown = linksMarkdownOf cwd owner repo sha results;
                totalLinks = foldl (\<lambda>sum r. sum + length (links r)) 0 results
            in executeTemplate readFile (templatePathsMap cwd actionPath) templateName
                 (Some totalLinks) (Some linksMarkdown)))"

text \<open>
  \<open>main\<close> up to the call of \<open>postComment\<close>: the result is the body handed to it, or the
  error that reaches the \<open>catch\<close> handler (which logs it and exits with status 0). The
  changed files come from \<open>getChangedFiles\<close>; a missing or empty PR number is \<open>None\<close>.
\<close>

definition main ::
  "(string \<Rightarrow> string option) \<Rightarrow> string \<Rightarrow> string \<Rightarrow> string \<Rightarrow> string \<Rightarrow> string
     \<Rightarrow> string option \<Rightarrow> string list \<Rightarrow> error + string" where
  "main readFile cwd actionPath owner repo sha prNumber files =
     (case prNumber of
        None \<Rightarrow> Inl PRNumberNotFound
      | Some n \<Rightarrow>
          (let results = parseFilesForLinks readFile files
           in compileTemplateFromLinks readFile cwd actionPath owner repo sha results files))"

section \<open>The validating script\<close>

text \<open>
  The earlier script of the repository (the first part of \<open>src/unnamed/part_001\<close>)
  validates every link and keeps the outcome in the link. Its functions that share a name
  with one of \<open>src/check-links.ts\<close> carry the suffix \<open>_validating\<close>.
\<close>

record LinkStatus =
  valid :: bool
  message :: "string option"
  statusCode :: "nat option"
  resolvedPath :: "string option"

record StatusLink = Link +
  status :: LinkStatus

text \<open>
  The state in which a promise ends: resolved with a value, rejected with the message of
  the exception, or never settled.
\<close>

datatype 'a Promise = Resolved 'a | Rejected string | NeverSettled

text \<open>
  What \<open>client.get(url, {timeout: 5000}, callback)\<close> does, the parameter \<open>client\<close>: the
  call itself throws (Node's client does for a URL that it cannot parse), or it returns a
  request that reports to the three handlers which \<open>checkLinkValidity\<close> installs: the
  response callback with the status code, the \<open>error\<close> event with the error's message,
  the \<open>timeout\<close> event. The reports are listed in the order in which they arrive.
\<close>

datatype ProbeEvent = Response nat | ErrorEvent string | TimeoutEvent

datatype ClientResult = Throws string | Reports "ProbeEvent list"

fun onProbeEvent :: "ProbeEvent \<Rightarrow> LinkStatus" where
  "onProbeEvent (Response code) =
     (if code \<ge> 200 \<and> code < 400
      then \<lparr>valid = True, message = None, statusCode = Some code, resolvedPath = None\<rparr>
      else \<lparr>valid = False, message = None, statusCode = Some code, resolvedPath = None\<rparr>)"
| "onProbeEvent (ErrorEvent msg) =
     \<lparr>valid = False, message = Some msg, statusCode = None, resolvedPath = None\<rparr>"
| "onProbeEvent TimeoutEvent =
     \<lparr>valid = False, message = Some ''Timeout'', statusCode = None, resolvedPath = None\<rparr>"

text \<open>
  \<open>checkLinkValidity\<close>; \<open>fs.existsSync\<close> is the parameter \<open>existsSync\<close>. For a link
  that begins with \<open>http\<close> the function returns \<open>new Promise((resolve) => ...)\<close>, and
  \<open>client.get\<close> is called in the executor with no \<open>try\<close> around it: an exception of
  the call rejects the promise; otherwise the first report resolves it, and it is never
  settled when no report arrives.
\<close>

definition checkLinkValidity ::
  "(string \<Rightarrow> bool) \<Rightarrow> (string \<Rightarrow> ClientResult) \<Rightarrow> string \<Rightarrow> string \<Rightarrow> string
     \<Rightarrow> LinkStatus Promise" where
  "checkLinkValidity existsSync client cwd link sourceFile =
     (if \<not> startsWith link ''http'' then
        (let resolved = resolve cwd [dirname sourceFile, link];
             exists = existsSync resolved
         in Resolved \<lparr>valid = exists,
                      message = Some (if exists then ''File exists''
                                      else ''File not found in repository''),
                      statusCode = None,
                      resolvedPath = Some (relative cwd cwd resolved)\<rparr>)
      else (case client link of
              Throws msg \<Rightarrow> Rejected msg
            | Reports [] \<Rightarrow> NeverSettled
            | Reports (event # _) \<Rightarrow> Resolved (onProbeEvent event)))"

text \<open>
  \<open>checkLinks\<close>: the links of one file with their outcomes, awaited one after the other;
  a rejected \<open>await\<close> throws out of the loop.
\<close>

fun checkLinks ::
  "(string \<Rightarrow> bool) \<Rightarrow> (string \<Rightarrow> ClientResult) \<Rightarrow> string \<Rightarrow> string list \<Rightarrow> string
     \<Rightarrow> StatusLink list Promise" where
  "checkLinks existsSync client cwd [] file = Resolved []"
| "checkLinks existsSync client cwd (link # rest) file =
     (case checkLinkValidity existsSync client cwd link file of
        Rejected msg \<Rightarrow> Rejected msg
      | NeverSettled \<Rightarrow> NeverSettled
      | Resolved st \<Rightarrow>
          (case checkLinks existsSync client cwd rest file of
             Rejected msg \<Rightarrow> Rejected msg
           | NeverSettled \<Rightarrow> NeverSettled
           | Resolved results \<Rightarrow>
               Resolved (\<lparr>url = link,
                           type = (if startsWith link ''http'' then Absolute else Relative),
                           status = st\<rparr> # results)))"

text \<open>
  \<open>parseFilesForLinks\<close> of the validating script. Reading a file and extracting its
  links do not involve validation; they are the parameter \<open>scan\<close>, which gives the links
  of a file (none for a file that cannot be read).
\<close>

fun parseFilesForLinks_validating ::
  "(string \<Rightarrow> string list) \<Rightarrow> (string \<Rightarrow> bool) \<Rightarrow> (string \<Rightarrow> ClientResult) \<Rightarrow> string
     \<Rightarrow> string list \<Rightarrow> StatusLink FileResult list Promise" where
  "parseFilesForLinks_validating scan existsSync client cwd [] = Resolved []"
| "parseFilesForLinks_validating scan existsSync client cwd (file # rest) =
     (if scan file = [] then parseFilesForLinks_validating scan existsSync client cwd rest
      else (case checkLinks existsSync client cwd (scan file) file of
              Rejected msg \<Rightarrow> Rejected msg
            | NeverSettled \<Rightarrow> NeverSettled
            | Resolved linkStatuses \<Rightarrow>
                (case parseFilesForLinks_validating scan existsSync client cwd rest of
                   Rejected msg \<Rightarrow> Rejected msg
                 | NeverSettled \<Rightarrow> NeverSettled
                 | Resolved results \<Rightarrow>
                     Resolved (\<lparr>filename = file, links = linkStatuses\<rparr> # results))))"

text \<open>
  \<open>checkAllLinksUpdated\<close> of the validating script. \<open>if (link.status.resolvedPath)\<close>
  holds for a path that is present and not the empty string.
\<close>

fun linksUpdated_validating :: "string \<Rightarrow> string list \<Rightarrow> StatusLink list \<Rightarrow> bool" where
  "linksUpdated_validating cwd changedFilePaths [] = True"
| "linksUpdated_validating cwd changedFilePaths (link # rest) =
     (if type link = Absolute then False
      else (case resolvedPath (status link) of
              None \<Rightarrow> linksUpdated_validating cwd changedFilePaths rest
            | Some p \<Rightarrow>
                if p = [] then linksUpdated_validating cwd changedFilePaths rest
                else if resolve cwd [p] \<notin> set changedFilePaths then False
                else linksUpdated_validating cwd changedFilePaths rest))"

fun resultsUpdated_validating ::
  "string \<Rightarrow> string list \<Rightarrow> StatusLink FileResult list \<Rightarrow> bool" where
  "resultsUpdated_validating cwd changedFilePaths [] = True"
| "resultsUpdated_validating cwd changedFilePaths (result # rest) =
     (if linksUpdated_validating cwd changedFilePaths (links result)
      then resultsUpdated_validating cwd changedFilePaths rest
      else False)"

definition checkAllLinksUpdated_validating ::
  "string \<Rightarrow> StatusLink FileResult list \<Rightarrow> string list \<Rightarrow> bool" where
  "checkAllLinksUpdated_validating cwd results changedFiles =
     (let changedFilePaths = map (\<lambda>f. resolve cwd [f]) changedFiles
      in resultsUpdated_validating cwd changedFilePaths results)"

text \<open>The template that \<open>postCommentFromTemplate\<close> determines first.\<close>

definition templateName_validating ::
  "string \<Rightarrow> StatusLink FileResult list \<Rightarrow> string list \<Rightarrow> string" where
  "templateName_validating cwd results changedFiles =
     (if results = [] then ''no-links-template.md''
      else (let allLinksRelativeAndTouched =
                  checkAllLinksUpdated_validating cwd results changedFiles
            in if allLinksRelativeAndTouched then ''all-updated-template.md''
               else ''comment-template.md''))"

text \<open>
  The characters of the source's texts beyond ASCII, each written as the three bytes of
  its UTF-8 form: U+2714, U+274C, U+2754 and U+2705.
\<close>

definition heavyCheckMark :: string where
  "heavyCheckMark = [CHR 0xE2, CHR 0x9C, CHR 0x94]"

definition crossMark :: string where
  "crossMark = [CHR 0xE2, CHR 0x9D, CHR 0x8C]"

definition questionMark :: string where
  "questionMark = [CHR 0xE2, CHR 0x9D, CHR 0x94]"

definition checkMarkButton :: string where
  "checkMarkButton = [CHR 0xE2, CHR 0x9C, CHR 0x85]"

text \<open>\<open>getDefaultTemplate\<close>: the two built-in texts.\<close>

definition getDefaultTemplate :: "bool \<Rightarrow> string" where
  "getDefaultTemplate noLinks =
     (if noLinks then
        ''# Code Links Report'' @ [CHR 0x0A, CHR 0x0A] @
        ''**'' @ heavyCheckMark @ '' No documentation actions required!**'' @ [CHR 0x0A, CHR 0x0A] @
        ''This PR does not affect files with active links to any documentation. Fire away!''
      else
        ''# Code Links Report'' @ [CHR 0x0A, CHR 0x0A] @
        ''This PR potentially affects {{LINK_COUNT}} links.'' @ [CHR 0x0A, CHR 0x0A] @
        ''## '' @ crossMark @ '' Broken links'' @ [CHR 0x0A, CHR 0x0A] @
        ''{{BROKEN_LINKS}}'' @ [CHR 0x0A, CHR 0x0A] @
        ''## '' @ questionMark @ '' Links to review'' @ [CHR 0x0A, CHR 0x0A] @
        ''{{VALID_LINKS}}'')"

text \<open>
  The text that \<open>postCommentFromTemplate\<close> appends for one invalid link and for one valid
  link. A status code counts when it is not 0, a message and a resolved path when they are
  present and not empty.
\<close>

definition fileLinkOf :: "string \<Rightarrow> string \<Rightarrow> string \<Rightarrow> string \<Rightarrow> string" where
  "fileLinkOf owner repo sha file =
     ''['' @ [CHR 0x60] @ file @ [CHR 0x60] @ '']('' @ blobUrl owner repo sha file @ '')''"

definition brokenLinkMarkdown :: "string \<Rightarrow> StatusLink \<Rightarrow> string" where
  "brokenLinkMarkdown fileLink link =
     crossMark @ '' '' @ [CHR 0x60] @ url link @ [CHR 0x60] @
       '' ('' @ linkTypeText (type link) @ '')'' @ [CHR 0x0A] @
     (case resolvedPath (status link) of
        None \<Rightarrow> []
      | Some p \<Rightarrow>
          if type link = Relative \<and> p \<noteq> []
          then ''   Resolves to: '' @ [CHR 0x60] @ p @ [CHR 0x60] @ [CHR 0x0A]
          else []) @
     (let messageLine = (case message (status link) of
                           None \<Rightarrow> []
                         | Some m \<Rightarrow> if m \<noteq> [] then ''   '' @ m @ [CHR 0x0A] else [])
      in case statusCode (status link) of
           None \<Rightarrow> messageLine
         | Some code \<Rightarrow>
             if code \<noteq> 0 then ''   Status: '' @ decimal code @ [CHR 0x0A]
             else messageLine) @
     ''   Referenced in: '' @ fileLink @ [CHR 0x0A, CHR 0x0A]"

definition validLinkMarkdown :: "string \<Rightarrow> StatusLink \<Rightarrow> string" where
  "validLinkMarkdown fileLink link =
     ''- '' @ [CHR 0x60] @ url link @ [CHR 0x60] @
       '' ('' @ linkTypeText (type link) @ '')'' @ [CHR 0x0A] @
     (case resolvedPath (status link) of
        None \<Rightarrow> []
      | Some p \<Rightarrow>
          if type link = Relative \<and> p \<noteq> []
          then ''  '' @ rightArrow @ '' '' @ [CHR 0x60] @ p @ [CHR 0x60] @ [CHR 0x0A]
          else []) @
     ''  Referenced in: '' @ fileLink @ [CHR 0x0A, CHR 0x0A]"

text \<open>
  \<open>postCommentFromTemplate\<close> up to the text that it writes and posts.
  \<open>process.env.TEMPLATE_PATH\<close> is the parameter \<open>templatePathEnv\<close>; \<open>readFile\<close> is
  \<open>fs.readFileSync\<close>, with \<open>None\<close> when it throws, which the \<open>catch\<close> answers with the
  built-in text. The placeholders are filled in only under the test on \<open>templateName\<close>.
\<close>

definition postCommentFromTemplate ::
  "(string \<Rightarrow> string option) \<Rightarrow> string option \<Rightarrow> string \<Rightarrow> string \<Rightarrow> string \<Rightarrow> string
     \<Rightarrow> StatusLink FileResult list \<Rightarrow> string list \<Rightarrow> string" where
  "postCommentFromTemplate readFile templatePathEnv cwd owner repo sha results changedFiles =
     (let templateName = templateName_validating cwd results changedFiles;
          templatePath = (case templatePathEnv of
                            None \<Rightarrow> ''.github/'' @ templateName
                          | Some p \<Rightarrow> if p \<noteq> [] then p else ''.github/'' @ templateName);
          template = (case readFile templatePath of
                        Some text \<Rightarrow> text
                      | None \<Rightarrow> getDefaultTemplate (results = []))
      in if results \<noteq> [] \<and> templateName = ''comment-template.md'' then
           (let brokenLinks = concat (map (\<lambda>result.
                  concat (map (brokenLinkMarkdown (fileLinkOf owner repo sha (filename result)))
                            (filter (\<lambda>l. valid (status l) = False) (links result)))) results);
                validLinks = concat (map (\<lambda>result.
                  concat (map (validLinkMarkdown (fileLinkOf owner repo sha (filename result)))
                            (filter (\<lambda>l. valid (status l) = True) (links result)))) results);
                brokenLinksMarkdown =
                  (if brokenLinks = []
                   then ''No broken links found. '' @ checkMarkButton @ [CHR 0x0A, CHR 0x0A]
                   else brokenLinks);
                validLinksMarkdown =
                  (if validLinks = []
                   then ''No additional links to review.'' @ [CHR 0x0A, CHR 0x0A]
                   else validLinks);
                totalLinks = foldl (\<lambda>sum r. sum + length (links r)) 0 results
            in replace
                 (replace
                    (replace template ''{{LINK_COUNT}}'' (decimal totalLinks))
                    ''{{BROKEN_LINKS}}'' brokenLinksMarkdown)
                 ''{{VALID_LINKS}}'' validLinksMarkdown)
         else template)"

text \<open>
  \<open>main\<close> of the validating script, with the environment variables set: the promise of
  the text posted. A rejected promise reaches the \<open>catch\<close> handler, which logs the error
  and exits with status 1.
\<close>

definition main_validating ::
  "(string \<Rightarrow> string option) \<Rightarrow> string option \<Rightarrow> (string \<Rightarrow> string list) \<Rightarrow> (string \<Rightarrow> bool)
     \<Rightarrow> (string \<Rightarrow> ClientResult) \<Rightarrow> string \<Rightarrow> string \<Rightarrow> string \<Rightarrow> string \<Rightarrow> string list
     \<Rightarrow> string Promise" where
  "main_validating readFile templatePathEnv scan existsSync client cwd owner repo sha files =
     (case parseFilesForLinks_validating scan existsSync client cwd files of
        Rejected msg \<Rightarrow> Rejected msg
      | NeverSettled \<Rightarrow> NeverSettled
      | Resolved results \<Rightarrow>
          Resolved (postCommentFromTemplate readFile templatePathEnv cwd owner repo sha
                      results files))"

section \<open>Notions of the specification\<close>

text \<open>
  The entries of a list at the positions of first occurrences, in their order: a list
  read as an insertion-ordered set.
\<close>

definition firstOccurrences :: "string list \<Rightarrow> string list" where
  "firstOccurrences xs =
     map (\<lambda>i. xs ! i) (filter (\<lambda>i. xs ! i \<notin> set (take i xs)) [0..<length xs])"

text \<open>Every link text found in the comments of a file, in the order of discovery.\<close>

definition discovered :: "string list \<Rightarrow> string list" where
  "discovered comments = concat (map commentMatches comments)"

text \<open>Two links that differ at most in the valid flag, the status code and the message.\<close>

definition sameButValidation :: "StatusLink \<Rightarrow> StatusLink \<Rightarrow> bool" where
  "sameButValidation a b =
     (url a = url b \<and> type a = type b \<and>
      resolvedPath (status a) = resolvedPath (status b))"

definition sameRunButValidation ::
  "StatusLink FileResult list \<Rightarrow> StatusLink FileResult list \<Rightarrow> bool" where
  "sameRunButValidation rs rs' =
     list_all2 (\<lambda>r r'. filename r = filename r' \<and>
                        list_all2 sameButValidation (links r) (links r')) rs rs'"

text \<open>
  Segment lists: clean ones hold no empty segment and no slash; plain ones hold no \<open>.\<close>
  and no \<open>..\<close> either. A root-relative path, as \<open>git diff --name-only\<close> prints the changed
  files, is a path whose segments are plain.
\<close>

definition cleanSegments :: "string list \<Rightarrow> bool" where
  "cleanSegments segs = list_all (\<lambda>seg. seg \<noteq> [] \<and> CHR ''/'' \<notin> set seg) segs"

definition plainSegments :: "string list \<Rightarrow> bool" where
  "plainSegments segs =
     list_all (\<lambda>seg. seg \<noteq> [] \<and> seg \<noteq> ''.'' \<and> seg \<noteq> ''..'' \<and> CHR ''/'' \<notin> set seg) segs"

definition rootRelative :: "string \<Rightarrow> bool" where
  "rootRelative f = plainSegments (splitSlash f)"

text \<open>
  The test that \<open>checkAllLinksUpdated\<close> makes for a relative link: its resolved path is
  among the resolved paths of the changed files.
\<close>

definition touched :: "string \<Rightarrow> string list \<Rightarrow> string \<Rightarrow> string \<Rightarrow> bool" where
  "touched cwd changedFiles file link =
     (resolve cwd [cwd, dirname file, link] \<in> set (map (\<lambda>f. resolve cwd [f]) changedFiles))"

section \<open>Facts about link extraction\<close>

lemma firstOccurrences_snoc:
  "firstOccurrences (xs @ [x]) = firstOccurrences xs @ (if x \<in> set xs then [] else [x])"
proof -
  let ?P = "\<lambda>i. (xs @ [x]) ! i \<notin> set (take i (xs @ [x]))"
  let ?Q = "\<lambda>i. xs ! i \<notin> set (take i xs)"
  have a: "filter ?P [0..<length xs] = filter ?Q [0..<length xs]"
    by (rule filter_cong) (auto simp: nth_append)
  have b: "map (\<lambda>i. (xs @ [x]) ! i) (filter ?Q [0..<length xs])
         = map (\<lambda>i. xs ! i) (filter ?Q [0..<length xs])"
    by (rule map_cong) (auto simp: nth_append)
  have c: "?P (length xs) \<longleftrightarrow> x \<notin> set xs"
    by simp
  have "firstOccurrences (xs @ [x])
      = map (\<lambda>i. (xs @ [x]) ! i) (filter ?P ([0..<length xs] @ [length xs]))"
    by (simp add: firstOccurrences_def)
  also have "\<dots> = map (\<lambda>i. (xs @ [x]) ! i) (filter ?Q [0..<length xs])
                 @ (if x \<in> set xs then [] else [x])"
    unfolding filter_append map_append a using c by simp
  finally show ?thesis
    unfolding b firstOccurrences_def .
qed

lemma set_firstOccurrences: "set (firstOccurrences xs) = set xs"
proof (induction xs rule: rev_induct)
  case Nil
  show ?case by (simp add: firstOccurrences_def)
next
  case (snoc x xs)
  then show ?case by (auto simp: firstOccurrences_snoc)
qed

lemma distinct_firstOccurrences: "distinct (firstOccurrences xs)"
proof (induction xs rule: rev_induct)
  case Nil
  show ?case by (simp add: firstOccurrences_def)
next
  case (snoc x xs)
  then show ?case by (simp add: firstOccurrences_snoc set_firstOccurrences)
qed

lemma foldl_setAdd_firstOccurrences: "foldl setAdd [] xs = firstOccurrences xs"
proof (induction xs rule: rev_induct)
  case Nil
  show ?case by (simp add: firstOccurrences_def)
next
  case (snoc x xs)
  then show ?case
    by (simp add: firstOccurrences_snoc setAdd_def set_firstOccurrences)
qed

lemma extractLinks_foldl:
  "foldl (\<lambda>ls comment. foldl setAdd ls (commentMatches comment)) acc comments
     = foldl setAdd acc (concat (map commentMatches comments))"
  by (induction comments arbitrary: acc) simp_all

lemma extractLinks_discovered: "extractLinks comments = firstOccurrences (discovered comments)"
  by (simp add: extractLinks_def discovered_def extractLinks_foldl foldl_setAdd_firstOccurrences)

text \<open>
  C5. The links extracted from the comments of a file are the link texts found in them,
  each kept once, at the position of its first occurrence and in the order of discovery:
  the list has no duplicates and the same elements as the sequence of all matches.
\<close>

theorem extractLinks_unique_first_occurrence:
  "extractLinks comments = firstOccurrences (discovered comments) \<and>
   distinct (extractLinks comments) \<and>
   set (extractLinks comments) = set (discovered comments)"
  by (simp add: extractLinks_discovered distinct_firstOccurrences set_firstOccurrences)

theorem extractLinks_unique_first_occurrence_witness:
  "discovered [''see ./a.md'', ''./b.md then ./a.md''] = [''./a.md'', ''./b.md'', ''./a.md''] \<and>
   extractLinks [''see ./a.md'', ''./b.md then ./a.md''] = [''./a.md'', ''./b.md''] \<and>
   distinct (extractLinks [''see ./a.md'', ''./b.md then ./a.md''])"
proof -
  have d: "discovered [''see ./a.md'', ''./b.md then ./a.md''] = [''./a.md'', ''./b.md'', ''./a.md'']"
    by code_simp
  have e: "extractLinks [''see ./a.md'', ''./b.md then ./a.md''] = [''./a.md'', ''./b.md'']"
    by code_simp
  from extractLinks_unique_first_occurrence [of "[''see ./a.md'', ''./b.md then ./a.md'']"]
  have "distinct (extractLinks [''see ./a.md'', ''./b.md then ./a.md''])"
    by (rule conjunct2 [THEN conjunct1])
  with d e show ?thesis by simp
qed

text \<open>
  C8. Link extraction does emit a token that is only comment punctuation: the line
  \<open>// see // here\<close> has the comment body \<open>see // here\<close>, from which \<open>extractLinks\<close>
  returns the link \<open>//\<close>, classified Relative. \<open>cleanComment\<close> removes comment syntax
  at the two ends of the body only, and the pattern for relative paths matches a slash
  followed by a slash.
\<close>

theorem extractLinks_emits_bare_delimiter:
  "extractComments ''// see // here'' = [''see // here''] \<and>
   extractLinks [''see // here''] = [''//''] \<and>
   parseFile (\<lambda>f. Some ''// see // here'') ''src/app.js''
     = Some \<lparr>filename = ''src/app.js'', links = [\<lparr>url = ''//'', type = Relative\<rparr>]\<rparr>"
proof -
  have a: "extractComments ''// see // here'' = [''see // here'']"
    by code_simp
  have b: "extractLinks [''see // here''] = [''//'']"
    by code_simp
  have c: "classify ''//'' = \<lparr>url = ''//'', type = Relative\<rparr>"
    by (simp add: classify_def startsWith_def)
  show ?thesis
    by (simp add: a b c parseFile_def)
qed

lemma startsWith_Cons_Cons [simp]:
  "startsWith (c # cs) (d # ds) \<longleftrightarrow> c = d \<and> startsWith cs ds"
  by (simp add: startsWith_def)

lemma startsWith_Nil [simp]: "startsWith s []"
  by (simp add: startsWith_def)

lemma startsWith_Nil_left [simp]: "startsWith [] (d # ds) = False"
  by (simp add: startsWith_def)

lemma startsWith_append_same [simp]: "startsWith (p @ s) p"
  by (simp add: startsWith_def)

lemma startsWith_append: "startsWith s p \<Longrightarrow> \<exists>t. s = p @ t"
  by (metis append_take_drop_id startsWith_def)

lemma matchLead_SomeD:
  assumes "matchLead lead s = Some w"
  shows "\<exists>run. w = lead @ run \<and> run \<noteq> [] \<and> linkChar (last run)"
proof -
  let ?run = "takeWhile linkChar (drop (length lead) s)"
  from assms have w: "w = lead @ ?run" and ne: "?run \<noteq> []"
    by (auto simp: matchLead_def Let_def split: if_splits)
  from ne have "last ?run \<in> set ?run" by simp
  then have "linkChar (last ?run)" by (rule set_takeWhileD [THEN conjunct2])
  with w ne show ?thesis by blast
qed

lemma globalMatch_mem: "w \<in> set (globalMatch m s) \<Longrightarrow> \<exists>t. m t = Some w"
  by (induction m s rule: globalMatch.induct) (auto split: option.splits)

lemma trim_id:
  assumes "w \<noteq> []" "\<not> isWhiteSpace (hd w)" "\<not> isWhiteSpace (last w)"
  shows "trim w = w"
proof -
  from assms(1,2) have a: "dropWhile isWhiteSpace w = w" by (cases w) simp_all
  from assms(1,3) have b: "dropWhile isWhiteSpace (rev w) = rev w"
    by (cases "rev w") (simp_all add: hd_rev [symmetric])
  show ?thesis by (simp add: trim_def a b)
qed

lemma linkChar_not_space: "linkChar c \<Longrightarrow> \<not> isWhiteSpace c"
  by (simp add: linkChar_def)

lemma trim_lead_run:
  assumes "lead \<noteq> []" "\<not> isWhiteSpace (hd lead)" "run \<noteq> []" "linkChar (last run)"
  shows "trim (lead @ run) = lead @ run"
  using assms by (intro trim_id) (simp_all add: linkChar_not_space)

lemma absolute_match_shape:
  assumes "w \<in> set (map trim (globalMatch matchAbsoluteUrl s))"
  shows "startsWith w ''http://'' \<or> startsWith w ''https://''"
proof -
  from assms obtain v where v: "v \<in> set (globalMatch matchAbsoluteUrl s)" and w: "w = trim v"
    by auto
  from globalMatch_mem [OF v] obtain t where "matchAbsoluteUrl t = Some v" ..
  then have "matchLead ''https://'' t = Some v \<or> matchLead ''http://'' t = Some v"
    by (auto simp: matchAbsoluteUrl_def split: option.splits)
  then obtain lead run where lr: "v = lead @ run" "run \<noteq> []" "linkChar (last run)"
      and lead: "lead = ''https://'' \<or> lead = ''http://''"
    by (auto dest!: matchLead_SomeD)
  from lead have "lead \<noteq> []" "\<not> isWhiteSpace (hd lead)"
    by (auto simp: isWhiteSpace_def)
  with lr have "trim v = lead @ run" by (simp add: trim_lead_run)
  with w lead show ?thesis by auto
qed

lemma relative_match_shape:
  assumes "w \<in> set (map trim (globalMatch matchRelativePath s))"
  shows "startsWith w ''./'' \<or> startsWith w ''../'' \<or> startsWith w ''/''"
proof -
  from assms obtain v where v: "v \<in> set (globalMatch matchRelativePath s)" and w: "w = trim v"
    by auto
  from globalMatch_mem [OF v] obtain t where "matchRelativePath t = Some v" ..
  then have "matchLead ''../'' t = Some v \<or> matchLead ''./'' t = Some v \<or> matchLead ''/'' t = Some v"
    by (auto simp: matchRelativePath_def split: option.splits)
  then obtain lead run where lr: "v = lead @ run" "run \<noteq> []" "linkChar (last run)"
      and lead: "lead = ''../'' \<or> lead = ''./'' \<or> lead = ''/''"
    by (auto dest!: matchLead_SomeD)
  from lead have "lead \<noteq> []" "\<not> isWhiteSpace (hd lead)"
    by (auto simp: isWhiteSpace_def)
  with lr have "trim v = lead @ run" by (simp add: trim_lead_run)
  with w lead show ?thesis by auto
qed

lemma commentMatches_shape:
  assumes "w \<in> set (commentMatches comment)"
  shows "(startsWith w ''http://'' \<or> startsWith w ''https://'') \<or>
         (startsWith w ''./'' \<or> startsWith w ''../'' \<or> startsWith w ''/'')"
  using assms absolute_match_shape relative_match_shape
  unfolding commentMatches_def Let_def set_append by blast

lemma classify_absolute:
  "startsWith t ''http://'' \<or> startsWith t ''https://'' \<Longrightarrow> type (classify t) = Absolute"
  by (auto simp: classify_def dest!: startsWith_append)

lemma classify_relative:
  "startsWith t ''./'' \<or> startsWith t ''../'' \<or> startsWith t ''/'' \<Longrightarrow> type (classify t) = Relative"
  by (auto simp: classify_def dest!: startsWith_append)

lemma parseFile_links_nonempty: "parseFile readFile file = Some r \<Longrightarrow> links r \<noteq> []"
  by (auto simp: parseFile_def Let_def split: option.splits if_splits)

lemma parseFile_links:
  assumes "parseFile readFile file = Some r"
  shows "\<exists>comments. links r = map classify (extractLinks comments)"
  using assms by (auto simp: parseFile_def Let_def split: option.splits if_splits)

lemma parseFilesForLinks_mem:
  "r \<in> set (parseFilesForLinks readFile files)
     \<longleftrightarrow> (\<exists>f \<in> set files. parseFile readFile f = Some r)"
  by (induction files)
     (auto simp: parseFilesForLinks_def map_filter_simps split: option.splits)

lemma extractLinks_shape:
  assumes "w \<in> set (extractLinks comments)"
  shows "(startsWith w ''http://'' \<or> startsWith w ''https://'') \<or>
         (startsWith w ''./'' \<or> startsWith w ''../'' \<or> startsWith w ''/'')"
proof -
  from assms have "w \<in> set (discovered comments)"
    by (simp add: extractLinks_discovered set_firstOccurrences)
  then obtain comment where "w \<in> set (commentMatches comment)"
    by (auto simp: discovered_def)
  then show ?thesis by (rule commentMatches_shape)
qed

text \<open>
  C6. The kind of a link is computed from its leading characters: a token that begins
  with \<open>http://\<close> or \<open>https://\<close> is classified Absolute, one that begins with \<open>./\<close>,
  \<open>../\<close> or \<open>/\<close> is classified Relative, and every link in the result of a scan has one
  of these five beginnings and the kind that goes with it.
\<close>

theorem link_kind_from_leading_characters:
  "(\<forall>t. (startsWith t ''http://'' \<or> startsWith t ''https://'' \<longrightarrow> type (classify t) = Absolute) \<and>
        (startsWith t ''./'' \<or> startsWith t ''../'' \<or> startsWith t ''/''
           \<longrightarrow> type (classify t) = Relative)) \<and>
   (\<forall>r \<in> set (parseFilesForLinks readFile files). \<forall>l \<in> set (links r).
      l = classify (url l) \<and>
      ((startsWith (url l) ''http://'' \<or> startsWith (url l) ''https://'') \<and> type l = Absolute \<or>
       (startsWith (url l) ''./'' \<or> startsWith (url l) ''../'' \<or> startsWith (url l) ''/'') \<and>
         type l = Relative))"
proof (intro conjI allI ballI impI)
  fix t assume "startsWith t ''http://'' \<or> startsWith t ''https://''"
  then show "type (classify t) = Absolute" by (rule classify_absolute)
next
  fix t assume "startsWith t ''./'' \<or> startsWith t ''../'' \<or> startsWith t ''/''"
  then show "type (classify t) = Relative" by (rule classify_relative)
next
  fix r l
  assume r: "r \<in> set (parseFilesForLinks readFile files)" and l: "l \<in> set (links r)"
  from r obtain f where "parseFile readFile f = Some r"
    by (auto simp: parseFilesForLinks_mem)
  then obtain comments where "links r = map classify (extractLinks comments)"
    by (auto dest: parseFile_links)
  with l obtain w where w: "w \<in> set (extractLinks comments)" and lw: "l = classify w"
    by auto
  from lw have u: "url l = w" by (simp add: classify_def)
  with lw show "l = classify (url l)" by simp
  from lw have k: "type l = type (classify w)" by simp
  from extractLinks_shape [OF w]
  show "(startsWith (url l) ''http://'' \<or> startsWith (url l) ''https://'') \<and> type l = Absolute \<or>
        (startsWith (url l) ''./'' \<or> startsWith (url l) ''../'' \<or> startsWith (url l) ''/'') \<and>
          type l = Relative"
    unfolding u k using classify_absolute [of w] classify_relative [of w] by blast
qed

theorem link_kind_from_leading_characters_witness:
  "parseFilesForLinks (\<lambda>f. Some ''// see https://api.example.com/docs and ../docs/guide.md'')
     [''src/app.js'']
   = [\<lparr>filename = ''src/app.js'',
       links = [\<lparr>url = ''https://api.example.com/docs'', type = Absolute\<rparr>,
                \<lparr>url = ''//api.example.com/docs'', type = Relative\<rparr>,
                \<lparr>url = ''../docs/guide.md'', type = Relative\<rparr>]\<rparr>] \<and>
   type (classify ''https://api.example.com/docs'') = Absolute \<and>
   type (classify ''../docs/guide.md'') = Relative"
proof -
  let ?rf = "\<lambda>f::string. Some ''// see https://api.example.com/docs and ../docs/guide.md''"
  have c: "extractComments ''// see https://api.example.com/docs and ../docs/guide.md''
             = [''see https://api.example.com/docs and ../docs/guide.md'']"
    by code_simp
  have e: "extractLinks [''see https://api.example.com/docs and ../docs/guide.md'']
             = [''https://api.example.com/docs'', ''//api.example.com/docs'', ''../docs/guide.md'']"
    by code_simp
  have p: "parseFilesForLinks ?rf [''src/app.js'']
     = [\<lparr>filename = ''src/app.js'',
         links = [\<lparr>url = ''https://api.example.com/docs'', type = Absolute\<rparr>,
                  \<lparr>url = ''//api.example.com/docs'', type = Relative\<rparr>,
                  \<lparr>url = ''../docs/guide.md'', type = Relative\<rparr>]\<rparr>]"
    by (simp add: parseFilesForLinks_def map_filter_def parseFile_def c e classify_def)
  from link_kind_from_leading_characters [of ?rf "[''src/app.js'']"]
  have k: "type (classify ''https://api.example.com/docs'') = Absolute"
          "type (classify ''../docs/guide.md'') = Relative"
    by simp_all
  from p k show ?thesis by simp
qed

section \<open>Facts about paths\<close>

lemma plain_clean: "plainSegments segs \<Longrightarrow> cleanSegments segs"
  by (simp add: plainSegments_def cleanSegments_def list_all_iff)

lemma splitSlash_nonempty [simp]: "splitSlash s \<noteq> []"
  by (induction s) (auto split: list.splits)

lemma joinSlash_Cons: "segs \<noteq> [] \<Longrightarrow> joinSlash (seg # segs) = seg @ CHR ''/'' # joinSlash segs"
  by (cases segs) simp_all

lemma joinSlash_splitSlash: "joinSlash (splitSlash s) = s"
proof (induction s)
  case Nil
  show ?case by simp
next
  case (Cons c s)
  show ?case
  proof (cases "c = CHR ''/''")
    case True
    with Cons show ?thesis by (simp add: joinSlash_Cons)
  next
    case False
    obtain seg segs where ss: "splitSlash s = seg # segs"
      by (cases "splitSlash s") simp_all
    with Cons have "s = joinSlash (seg # segs)" by simp
    with False ss show ?thesis by (cases segs) simp_all
  qed
qed

lemma splitSlash_append:
  "splitSlash (a @ CHR ''/'' # b) = splitSlash a @ splitSlash b"
proof (induction a)
  case Nil
  show ?case by simp
next
  case (Cons c a)
  obtain seg segs where ss: "splitSlash a = seg # segs"
    by (cases "splitSlash a") simp_all
  with Cons show ?case by simp
qed

lemma splitSlash_no_slash: "seg \<in> set (splitSlash s) \<Longrightarrow> CHR ''/'' \<notin> set seg"
proof (induction s arbitrary: seg)
  case Nil
  then show ?case by simp
next
  case (Cons c s)
  obtain x xs where ss: "splitSlash s = x # xs"
    by (cases "splitSlash s") simp_all
  with Cons show ?case by (auto split: if_splits)
qed

lemma splitSlash_slash_free: "CHR ''/'' \<notin> set s \<Longrightarrow> splitSlash s = [s]"
  by (induction s) auto

lemma splitSlash_joinSlash:
  "list_all (\<lambda>seg. CHR ''/'' \<notin> set seg) segs \<Longrightarrow> segs \<noteq> [] \<Longrightarrow> splitSlash (joinSlash segs) = segs"
proof (induction segs rule: joinSlash.induct)
  case 1
  then show ?case by simp
next
  case (2 seg)
  then show ?case by (simp add: splitSlash_slash_free)
next
  case (3 seg s2 rest)
  then show ?case by (simp add: splitSlash_append splitSlash_slash_free)
qed

lemma joinSlash_eq_Nil: "cleanSegments segs \<Longrightarrow> joinSlash segs = [] \<longleftrightarrow> segs = []"
  by (cases segs rule: joinSlash.cases) (simp_all add: cleanSegments_def)

lemma joinSlash_inject:
  assumes "cleanSegments A" "cleanSegments B" "joinSlash A = joinSlash B"
  shows "A = B"
proof (cases "A = []")
  case True
  with assms(3) have "joinSlash B = []" by simp
  with assms(2) have "B = []" by (simp add: joinSlash_eq_Nil)
  with True show ?thesis by simp
next
  case False
  with assms have "B \<noteq> []" by (auto simp: joinSlash_eq_Nil)
  from assms(1,2) have "list_all (\<lambda>seg. CHR ''/'' \<notin> set seg) A" "list_all (\<lambda>seg. CHR ''/'' \<notin> set seg) B"
    by (simp_all add: cleanSegments_def list_all_iff)
  with False \<open>B \<noteq> []\<close> have "splitSlash (joinSlash A) = A" "splitSlash (joinSlash B) = B"
    by (simp_all add: splitSlash_joinSlash)
  with assms(3) show ?thesis by metis
qed

lemma joinSlash_not_absolute: "cleanSegments segs \<Longrightarrow> \<not> isAbsolute (joinSlash segs)"
proof (cases segs rule: joinSlash.cases)
  case 1
  then show ?thesis by (simp add: isAbsolute_def)
next
  case (2 seg)
  assume "cleanSegments segs"
  with 2 show ?thesis by (cases seg) (auto simp: isAbsolute_def cleanSegments_def)
next
  case (3 seg s2 rest)
  assume "cleanSegments segs"
  with 3 show ?thesis by (cases seg) (auto simp: isAbsolute_def cleanSegments_def)
qed


lemma pathSegments_root_join:
  assumes "cleanSegments S"
  shows "pathSegments (CHR ''/'' # joinSlash S) = S"
proof (cases "S = []")
  case True
  then show ?thesis by (simp add: pathSegments_def)
next
  case False
  from assms have "list_all (\<lambda>seg. CHR ''/'' \<notin> set seg) S"
    by (simp add: cleanSegments_def list_all_iff)
  with False have "splitSlash (joinSlash S) = S" by (simp add: splitSlash_joinSlash)
  moreover from assms have "filter (\<lambda>seg. seg \<noteq> []) S = S"
    by (simp add: cleanSegments_def list_all_iff)
  ultimately show ?thesis by (simp add: pathSegments_def)
qed


lemma normalizeSegment_plain:
  assumes "plainSegments res" "CHR ''/'' \<notin> set seg"
  shows "plainSegments (normalizeSegment False res seg)"
proof -
  from assms(1) have "plainSegments (butlast res)"
    by (auto simp: plainSegments_def list_all_iff dest: in_set_butlastD)
  with assms show ?thesis
    by (auto simp: normalizeSegment_def plainSegments_def list_all_iff)
qed

lemma foldl_normalizeSegment_plain:
  "plainSegments res \<Longrightarrow> list_all (\<lambda>seg. CHR ''/'' \<notin> set seg) segs
     \<Longrightarrow> plainSegments (foldl (normalizeSegment False) res segs)"
  by (induction segs arbitrary: res) (simp_all add: normalizeSegment_plain)

lemma normalizeSegments_plain: "plainSegments (normalizeSegments False p)"
  unfolding normalizeSegments_def
  by (rule foldl_normalizeSegment_plain)
     (auto simp: plainSegments_def list_all_iff dest: splitSlash_no_slash)

lemma foldl_normalizeSegment_append:
  "plainSegments segs \<Longrightarrow> foldl (normalizeSegment a) res segs = res @ segs"
  by (induction segs arbitrary: res) (auto simp: plainSegments_def normalizeSegment_def)

lemma normalizeSegments_append:
  "normalizeSegments a (p @ CHR ''/'' # q)
     = foldl (normalizeSegment a) (normalizeSegments a p) (splitSlash q)"
  by (simp add: normalizeSegments_def splitSlash_append)

lemma normalizeSegment_empty [simp]: "normalizeSegment a res [] = res"
  by (simp add: normalizeSegment_def)

lemma normalizeSegments_trailing_slash:
  "normalizeSegments a (p @ ''/'') = normalizeSegments a p"
  by (simp add: normalizeSegments_append)

lemma normalizeSegments_root_join:
  assumes "plainSegments S"
  shows "normalizeSegments False (CHR ''/'' # joinSlash S) = S"
proof (cases "S = []")
  case True
  then show ?thesis by (simp add: normalizeSegments_def)
next
  case False
  from assms have "list_all (\<lambda>seg. CHR ''/'' \<notin> set seg) S"
    by (simp add: plainSegments_def list_all_iff)
  with False have "splitSlash (joinSlash S) = S" by (simp add: splitSlash_joinSlash)
  with assms show ?thesis
    by (simp add: normalizeSegments_def foldl_normalizeSegment_append)
qed

lemma resolveLoop_absolute_cwd:
  "isAbsolute cwd \<Longrightarrow> snd (resolveLoop cwd args acc) = True"
  by (induction args arbitrary: acc) (auto simp: isAbsolute_def)

lemma resolve_absolute_cwd:
  assumes "isAbsolute cwd"
  shows "\<exists>S. plainSegments S \<and> resolve cwd args = CHR ''/'' # joinSlash S"
proof -
  obtain rp ra where r: "resolveLoop cwd (rev args) [] = (rp, ra)"
    by (cases "resolveLoop cwd (rev args) []")
  with resolveLoop_absolute_cwd [OF assms, of "rev args" "[]"] have "ra = True" by simp
  with r have "resolve cwd args = CHR ''/'' # joinSlash (normalizeSegments False rp)"
    by (simp add: resolve_def normalizeString_def)
  then show ?thesis using normalizeSegments_plain by blast
qed

lemma resolve_absolute_arg:
  assumes "isAbsolute p"
  shows "resolve cwd [p] = CHR ''/'' # joinSlash (normalizeSegments False p)"
proof -
  from assms have "p \<noteq> []" by (auto simp: isAbsolute_def)
  with assms show ?thesis
    by (simp add: resolve_def normalizeString_def normalizeSegments_trailing_slash)
qed

lemma resolve_root_join:
  assumes "plainSegments S"
  shows "resolve cwd [CHR ''/'' # joinSlash S] = CHR ''/'' # joinSlash S"
proof -
  have "isAbsolute (CHR ''/'' # joinSlash S)" by (simp add: isAbsolute_def)
  then show ?thesis
    by (simp add: resolve_absolute_arg normalizeSegments_root_join [OF assms])
qed

lemma resolve_root_relative:
  assumes "isAbsolute cwd" "plainSegments F" "F \<noteq> []"
  shows "resolve cwd [joinSlash F] = CHR ''/'' # joinSlash (normalizeSegments False cwd @ F)"
proof -
  from assms(2) have cl: "cleanSegments F" by (rule plain_clean)
  with assms(3) have ne: "joinSlash F \<noteq> []" by (simp add: joinSlash_eq_Nil)
  from cl have na: "\<not> isAbsolute (joinSlash F)" by (rule joinSlash_not_absolute)
  from assms(1) have c: "cwd \<noteq> []" by (auto simp: isAbsolute_def)
  from assms(2) have "list_all (\<lambda>seg. CHR ''/'' \<notin> set seg) F"
    by (simp add: plainSegments_def list_all_iff)
  with assms(3) have sp: "splitSlash (joinSlash F) = F" by (simp add: splitSlash_joinSlash)
  have "normalizeSegments False (cwd @ CHR ''/'' # (joinSlash F @ ''/''))
          = normalizeSegments False cwd @ F"
    by (simp add: normalizeSegments_append splitSlash_append sp
          foldl_normalizeSegment_append [OF assms(2)])
  with ne na c assms(1) show ?thesis
    by (simp add: resolve_def normalizeString_def)
qed

lemma commonPrefix_append [simp]: "commonPrefix xs (xs @ ys) = xs"
  by (induction xs) simp_all

lemma commonPrefix_same [simp]: "commonPrefix xs xs = xs"
  using commonPrefix_append [of xs "[]"] by simp

lemma commonPrefix_length_le: "length (commonPrefix xs ys) \<le> length xs"
  by (induction xs ys rule: commonPrefix.induct) simp_all

lemma commonPrefix_full:
  "length (commonPrefix xs ys) = length xs \<Longrightarrow> ys = xs @ drop (length xs) ys"
  by (induction xs ys rule: commonPrefix.induct) (auto split: if_splits)

lemma relative_cwd_root_join:
  assumes "isAbsolute cwd" "plainSegments S"
  shows "relative cwd cwd (CHR ''/'' # joinSlash S)
           = joinSlash
               (replicate (length (normalizeSegments False cwd)
                            - length (commonPrefix (normalizeSegments False cwd) S)) ''..''
                @ drop (length (commonPrefix (normalizeSegments False cwd) S)) S)"
proof (cases "cwd = CHR ''/'' # joinSlash S")
  case True
  with assms(2) have "normalizeSegments False cwd = S"
    by (simp add: normalizeSegments_root_join)
  with True show ?thesis by (simp add: relative_def)
next
  case False
  have f: "pathSegments (resolve cwd [cwd]) = normalizeSegments False cwd"
    by (simp add: resolve_absolute_arg [OF assms(1)] pathSegments_root_join
          plain_clean normalizeSegments_plain)
  have t: "pathSegments (resolve cwd [CHR ''/'' # joinSlash S]) = S"
    by (simp add: resolve_root_join [OF assms(2)] pathSegments_root_join
          plain_clean [OF assms(2)])
  from False show ?thesis
    by (simp add: relative_def f t Let_def)
qed





lemma dirname_example: "dirname ''src/app.js'' = ''src''"
  by (simp add: dirname_def)

lemma resolve_example:
  assumes "isAbsolute cwd"
  shows "resolve cwd [cwd, ''src'', ''../docs/guide.md'']
           = CHR ''/'' # joinSlash (normalizeSegments False cwd @ [''docs'', ''guide.md''])"
proof -
  let ?C = "normalizeSegments False cwd"
  from assms have c: "cwd \<noteq> []" by (auto simp: isAbsolute_def)
  have s: "splitSlash ''src/../docs/guide.md/'' = [''src'', ''..'', ''docs'', ''guide.md'', []]"
    by simp
  have "plainSegments ?C" by (rule normalizeSegments_plain)
  then have "\<And>x. x \<in> set ?C \<Longrightarrow> x \<noteq> ''..''"
    by (auto simp: plainSegments_def list_all_iff)
  then have n: "foldl (normalizeSegment False) ?C [''src'', ''..'', ''docs'', ''guide.md'', []]
             = ?C @ [''docs'', ''guide.md'']"
    by (simp add: normalizeSegment_def)
  have "normalizeSegments False (cwd @ CHR ''/'' # ''src/../docs/guide.md/'')
          = ?C @ [''docs'', ''guide.md'']"
    unfolding normalizeSegments_append s n ..
  with c assms show ?thesis
    by (simp add: resolve_def normalizeString_def isAbsolute_def)
qed

lemma relativePathOf_example:
  assumes "isAbsolute cwd"
  shows "relativePathOf cwd ''src/app.js'' ''../docs/guide.md'' = ''docs/guide.md''"
proof -
  let ?C = "normalizeSegments False cwd"
  have "plainSegments ?C" by (rule normalizeSegments_plain)
  then have p: "plainSegments (?C @ [''docs'', ''guide.md''])"
    by (simp add: plainSegments_def)
  show ?thesis
    unfolding relativePathOf_def Let_def dirname_example resolve_example [OF assms]
      relative_cwd_root_join [OF assms p]
    by simp
qed

lemma touched_iff_relativePath:
  assumes cwd: "isAbsolute cwd" and cf: "list_all rootRelative changedFiles"
  shows "touched cwd changedFiles file link \<longleftrightarrow> relativePathOf cwd file link \<in> set changedFiles"
proof -
  let ?C = "normalizeSegments False cwd"
  let ?R = "resolve cwd [cwd, dirname file, link]"
  from resolve_absolute_cwd [OF cwd] obtain S where S: "plainSegments S"
      and R: "?R = CHR ''/'' # joinSlash S"
    by blast
  let ?k = "length (commonPrefix ?C S)"
  let ?rel = "replicate (length ?C - ?k) ''..'' @ drop ?k S"
  have rel: "relativePathOf cwd file link = joinSlash ?rel"
    by (simp add: relativePathOf_def R relative_cwd_root_join [OF cwd S])
  have resolve_f: "resolve cwd [f] = CHR ''/'' # joinSlash (?C @ splitSlash f)"
    if "f \<in> set changedFiles" for f
  proof -
    from that cf have "plainSegments (splitSlash f)"
      by (simp add: list_all_iff rootRelative_def)
    from resolve_root_relative [OF cwd this] show ?thesis
      by (simp add: joinSlash_splitSlash)
  qed
  have plainC: "plainSegments ?C" by (rule normalizeSegments_plain)
  show ?thesis
  proof
    assume "touched cwd changedFiles file link"
    then obtain f where f: "f \<in> set changedFiles" and "?R = resolve cwd [f]"
      by (auto simp: touched_def)
    with R resolve_f have j: "joinSlash S = joinSlash (?C @ splitSlash f)" by simp
    from f cf have pf: "plainSegments (splitSlash f)"
      by (simp add: list_all_iff rootRelative_def)
    with plainC have "plainSegments (?C @ splitSlash f)" by (simp add: plainSegments_def)
    with S j have "S = ?C @ splitSlash f" by (intro joinSlash_inject plain_clean)
    then have "joinSlash ?rel = f" by (simp add: joinSlash_splitSlash)
    with rel f show "relativePathOf cwd file link \<in> set changedFiles" by simp
  next
    assume "relativePathOf cwd file link \<in> set changedFiles"
    with rel obtain f where f: "f \<in> set changedFiles" and jf: "joinSlash ?rel = f" by simp
    from f cf have pf: "plainSegments (splitSlash f)"
      by (simp add: list_all_iff rootRelative_def)
    have "cleanSegments (drop ?k S)"
      using plain_clean [OF S] by (auto simp: cleanSegments_def list_all_iff dest: in_set_dropD)
    then have "cleanSegments ?rel" by (auto simp: cleanSegments_def list_all_iff)
    moreover from jf have "joinSlash ?rel = joinSlash (splitSlash f)"
      by (simp add: joinSlash_splitSlash)
    ultimately have e: "?rel = splitSlash f" using plain_clean [OF pf] by (intro joinSlash_inject)
    have "length ?C - ?k = 0"
    proof (rule ccontr)
      assume "length ?C - ?k \<noteq> 0"
      then have "''..'' \<in> set ?rel" by simp
      with e have "''..'' \<in> set (splitSlash f)" by simp
      with pf show False by (auto simp: plainSegments_def list_all_iff)
    qed
    with commonPrefix_length_le [of ?C S] have k: "?k = length ?C" by simp
    from commonPrefix_full [OF k] have "S = ?C @ drop (length ?C) S" .
    with e k have "S = ?C @ splitSlash f" by simp
    with R resolve_f [OF f] have "?R = resolve cwd [f]" by simp
    with f show "touched cwd changedFiles file link" by (auto simp: touched_def)
  qed
qed


lemma dropWhile_all: "\<forall>x \<in> set xs. P x \<Longrightarrow> dropWhile P xs = []"
  by simp

lemma dropWhile_none_head: "xs = [] \<or> \<not> P (hd xs) \<Longrightarrow> dropWhile P xs = xs"
  by (cases xs) auto


lemma splitSlash_snoc_decomp: "splitSlash f = butlast (splitSlash f) @ [last (splitSlash f)]"
  by simp












section \<open>Facts about the completeness decision\<close>

lemma linksUpdated_iff:
  "linksUpdated cwd changedFilePaths file ls \<longleftrightarrow>
     (\<forall>l \<in> set ls. type l = Relative \<and>
        resolve cwd [cwd, dirname file, url l] \<in> set changedFilePaths)"
proof (induction ls)
  case Nil
  show ?case by simp
next
  case (Cons l ls)
  then show ?case by (cases "type l") (auto simp: Let_def)
qed

lemma resultsUpdated_iff:
  "resultsUpdated cwd changedFilePaths rs \<longleftrightarrow>
     (\<forall>r \<in> set rs. linksUpdated cwd changedFilePaths (filename r) (links r))"
  by (induction rs) auto

lemma checkAllLinksUpdated_iff:
  "checkAllLinksUpdated cwd rs changedFiles \<longleftrightarrow>
     (\<forall>r \<in> set rs. \<forall>l \<in> set (links r).
        type l = Relative \<and> touched cwd changedFiles (filename r) (url l))"
  by (simp add: checkAllLinksUpdated_def resultsUpdated_iff linksUpdated_iff touched_def)

lemma parseFilesForLinks_Nil_iff:
  "parseFilesForLinks readFile files = [] \<longleftrightarrow> (\<forall>f \<in> set files. parseFile readFile f = None)"
  by (induction files)
     (auto simp: parseFilesForLinks_def map_filter_simps split: option.splits)

lemma compileTemplateFromLinks_chosenTemplate:
  "compileTemplateFromLinks readFile cwd actionPath owner repo sha results changedFiles =
     executeTemplate readFile (templatePathsMap cwd actionPath)
       (chosenTemplate cwd results changedFiles)
       (if results = [] then None else Some (foldl (\<lambda>sum r. sum + length (links r)) 0 results))
       (if results = [] then None else Some (linksMarkdownOf cwd owner repo sha results))"
  by (simp add: compileTemplateFromLinks_def chosenTemplate_def Let_def)

lemma chosenTemplate_cases:
  "chosenTemplate cwd rs changedFiles =
     (if rs = [] then NoLinks
      else if \<exists>r \<in> set rs. \<exists>l \<in> set (links r).
                type l = Absolute \<or>
                type l = Relative \<and> \<not> touched cwd changedFiles (filename r) (url l)
           then Pending
           else AllUpdated)"
  (is "_ = (if _ then _ else if ?E then _ else _)")
proof -
  have k: "type l \<noteq> Relative \<longleftrightarrow> type l = Absolute" for l :: Link
    by (cases "type l") simp_all
  have c: "checkAllLinksUpdated cwd rs changedFiles \<longleftrightarrow> \<not> ?E"
    unfolding checkAllLinksUpdated_iff using k by blast
  show ?thesis
  proof (cases "rs = []")
    case True
    then show ?thesis by (simp add: chosenTemplate_def)
  next
    case False
    show ?thesis
    proof (cases "checkAllLinksUpdated cwd rs changedFiles")
      case True
      with c have "\<not> ?E" by blast
      then have "(if ?E then Pending else AllUpdated) = AllUpdated" by (rule if_not_P)
      with True False show ?thesis by (simp only: chosenTemplate_def Let_def simp_thms if_True if_False)
    next
      case nu: False
      with c have "?E" by blast
      then have "(if ?E then Pending else AllUpdated) = Pending" by (rule if_P)
      with nu False show ?thesis by (simp only: chosenTemplate_def Let_def simp_thms if_True if_False)
    qed
  qed
qed

text \<open>
  C1. \<open>compileTemplateFromLinks\<close> renders the template \<open>chosenTemplate\<close>, and the
  template chosen for a run is NoLinks when no scanned file produced a link;
  otherwise Pending when some link is Absolute or some Relative link's resolved path is
  not among the changed files; otherwise AllUpdated. The membership test is the one of the
  code, on resolved absolute paths; with an absolute working directory and changed files
  given as root-relative paths it is membership of the root-relative resolved path in the
  list of changed files.
\<close>

theorem completeness_decision:
  "compileTemplateFromLinks readFile cwd actionPath owner repo sha
     (parseFilesForLinks readFile files) changedFiles =
     executeTemplate readFile (templatePathsMap cwd actionPath)
       (chosenTemplate cwd (parseFilesForLinks readFile files) changedFiles)
       (if parseFilesForLinks readFile files = [] then None
        else Some (foldl (\<lambda>sum r. sum + length (links r)) 0
                     (parseFilesForLinks readFile files)))
       (if parseFilesForLinks readFile files = [] then None
        else Some (linksMarkdownOf cwd owner repo sha (parseFilesForLinks readFile files))) \<and>
   chosenTemplate cwd (parseFilesForLinks readFile files) changedFiles =
     (if \<forall>f \<in> set files. parseFile readFile f = None then NoLinks
      else if \<exists>r \<in> set (parseFilesForLinks readFile files). \<exists>l \<in> set (links r).
                type l = Absolute \<or>
                type l = Relative \<and> \<not> touched cwd changedFiles (filename r) (url l)
           then Pending
           else AllUpdated) \<and>
   (isAbsolute cwd \<and> list_all rootRelative changedFiles \<longrightarrow>
      chosenTemplate cwd (parseFilesForLinks readFile files) changedFiles =
        (if \<forall>f \<in> set files. parseFile readFile f = None then NoLinks
         else if \<exists>r \<in> set (parseFilesForLinks readFile files). \<exists>l \<in> set (links r).
                   type l = Absolute \<or>
                   type l = Relative \<and>
                     relativePathOf cwd (filename r) (url l) \<notin> set changedFiles
              then Pending
              else AllUpdated))"
proof (intro conjI impI)
  show "compileTemplateFromLinks readFile cwd actionPath owner repo sha
     (parseFilesForLinks readFile files) changedFiles =
     executeTemplate readFile (templatePathsMap cwd actionPath)
       (chosenTemplate cwd (parseFilesForLinks readFile files) changedFiles)
       (if parseFilesForLinks readFile files = [] then None
        else Some (foldl (\<lambda>sum r. sum + length (links r)) 0
                     (parseFilesForLinks readFile files)))
       (if parseFilesForLinks readFile files = [] then None
        else Some (linksMarkdownOf cwd owner repo sha (parseFilesForLinks readFile files)))"
    by (rule compileTemplateFromLinks_chosenTemplate)
  show code: "chosenTemplate cwd (parseFilesForLinks readFile files) changedFiles =
     (if \<forall>f \<in> set files. parseFile readFile f = None then NoLinks
      else if \<exists>r \<in> set (parseFilesForLinks readFile files). \<exists>l \<in> set (links r).
                type l = Absolute \<or>
                type l = Relative \<and> \<not> touched cwd changedFiles (filename r) (url l)
           then Pending
           else AllUpdated)"
    unfolding chosenTemplate_cases parseFilesForLinks_Nil_iff ..
  assume "isAbsolute cwd \<and> list_all rootRelative changedFiles"
  then have eq: "touched cwd changedFiles
                   = (\<lambda>file link. relativePathOf cwd file link \<in> set changedFiles)"
    by (intro ext) (simp add: touched_iff_relativePath)
  show "chosenTemplate cwd (parseFilesForLinks readFile files) changedFiles =
        (if \<forall>f \<in> set files. parseFile readFile f = None then NoLinks
         else if \<exists>r \<in> set (parseFilesForLinks readFile files). \<exists>l \<in> set (links r).
                   type l = Absolute \<or>
                   type l = Relative \<and>
                     relativePathOf cwd (filename r) (url l) \<notin> set changedFiles
              then Pending
              else AllUpdated)"
    using code unfolding eq .
qed

theorem completeness_decision_witness:
  "chosenTemplate ''/home/runner/work/repo''
     (parseFilesForLinks
        (\<lambda>f. if f = ''src/app.js'' then Some ''// see ../docs/guide.md'' else Some ''# Guide'')
        [''src/app.js'', ''docs/guide.md''])
     [''src/app.js'', ''docs/guide.md''] = AllUpdated \<and>
   chosenTemplate ''/home/runner/work/repo''
     (parseFilesForLinks
        (\<lambda>f. if f = ''src/app.js'' then Some ''// see ../docs/guide.md'' else Some ''# Guide'')
        [''src/app.js''])
     [''src/app.js''] = Pending"
proof -
  let ?cwd = "''/home/runner/work/repo''"
  let ?rf = "\<lambda>f. if f = ''src/app.js'' then Some ''// see ../docs/guide.md'' else Some ''# Guide''"
  let ?r = "\<lparr>filename = ''src/app.js'', links = [\<lparr>url = ''../docs/guide.md'', type = Relative\<rparr>]\<rparr>"
  have c1: "extractLinks (extractComments ''// see ../docs/guide.md'') = [''../docs/guide.md'']"
    by code_simp
  have c2: "extractLinks (extractComments ''# Guide'') = []"
    by code_simp
  have p1: "parseFile ?rf ''src/app.js'' = Some ?r"
    by (simp add: parseFile_def c1 classify_def startsWith_def)
  have p2: "parseFile ?rf ''docs/guide.md'' = None"
    by (simp add: parseFile_def c2)
  have ps2: "parseFilesForLinks ?rf [''src/app.js'', ''docs/guide.md''] = [?r]"
    by (simp add: parseFilesForLinks_def map_filter_simps p1 p2)
  have ps1: "parseFilesForLinks ?rf [''src/app.js''] = [?r]"
    by (simp add: parseFilesForLinks_def map_filter_simps p1)
  have a: "isAbsolute ?cwd" by (simp add: isAbsolute_def)
  have rp: "relativePathOf ?cwd ''src/app.js'' ''../docs/guide.md'' = ''docs/guide.md''"
    using a by (rule relativePathOf_example)
  have r2: "list_all rootRelative [''src/app.js'', ''docs/guide.md'']"
    by (simp add: rootRelative_def plainSegments_def)
  have r1: "list_all rootRelative [''src/app.js'']"
    by (simp add: rootRelative_def plainSegments_def)
  from completeness_decision [where cwd = ?cwd and readFile = ?rf
         and files = "[''src/app.js'', ''docs/guide.md'']"
         and changedFiles = "[''src/app.js'', ''docs/guide.md'']",
         THEN conjunct2, THEN conjunct2, THEN mp, OF conjI [OF a r2]]
  have all: "chosenTemplate ?cwd (parseFilesForLinks ?rf [''src/app.js'', ''docs/guide.md''])
               [''src/app.js'', ''docs/guide.md''] = AllUpdated"
    by (simp add: ps2 p1 rp)
  from completeness_decision [where cwd = ?cwd and readFile = ?rf
         and files = "[''src/app.js'']" and changedFiles = "[''src/app.js'']",
         THEN conjunct2, THEN conjunct2, THEN mp, OF conjI [OF a r1]]
  have pen: "chosenTemplate ?cwd (parseFilesForLinks ?rf [''src/app.js'']) [''src/app.js''] = Pending"
    by (simp add: ps1 p1 rp)
  from all pen show ?thesis by (rule conjI)
qed

section \<open>Facts about rendering\<close>

lemma executeTemplate_missing:
  "readFile (templatePathsMap cwd actionPath t) = None
     \<Longrightarrow> executeTemplate readFile (templatePathsMap cwd actionPath) t linkCount linksOutput
           = Inl (TemplateNotFound (templatePathsMap cwd actionPath t))"
  by (simp add: executeTemplate_def Let_def)

text \<open>
  C2. In \<open>src/check-links.ts\<close> a missing template ends the run with no report: for a run
  over the changed file \<open>src/app.js\<close>, which holds no link, with the action installed at
  \<open>/action\<close> and no file \<open>/action/templates/no-links.md\<close>, \<open>main\<close> ends with the error
  \<open>Template not found: /action/templates/no-links.md\<close> and no text reaches \<open>postComment\<close>.
  The validating script, run over the same changed file with no template in \<open>.github\<close>,
  posts the built-in text for a run without links.
\<close>

theorem missing_template_ends_run:
  "main (\<lambda>p. if p = ''src/app.js'' then Some ''let x = 1'' else None)
     ''/home/runner/work/repo'' ''/action'' ''owner'' ''repo'' ''abc123'' (Some ''7'')
     [''src/app.js'']
   = Inl (TemplateNotFound ''/action/templates/no-links.md'') \<and>
   main_validating (\<lambda>p. None) None (\<lambda>f. []) (\<lambda>p. True) (\<lambda>u. Reports [Response 200])
     ''/home/runner/work/repo'' ''owner'' ''repo'' ''abc123'' [''src/app.js'']
   = Resolved (getDefaultTemplate True)"
proof -
  have a: "main (\<lambda>p. if p = ''src/app.js'' then Some ''let x = 1'' else None)
     ''/home/runner/work/repo'' ''/action'' ''owner'' ''repo'' ''abc123'' (Some ''7'')
     [''src/app.js'']
   = Inl (TemplateNotFound ''/action/templates/no-links.md'')"
    by code_simp
  have b: "main_validating (\<lambda>p. None) None (\<lambda>f. []) (\<lambda>p. True) (\<lambda>u. Reports [Response 200])
     ''/home/runner/work/repo'' ''owner'' ''repo'' ''abc123'' [''src/app.js'']
   = Resolved (getDefaultTemplate True)"
    by (simp add: main_validating_def postCommentFromTemplate_def templateName_validating_def)
  from a b show ?thesis by (rule conjI)
qed

text \<open>
  C9. The composer of the validating script fills in the placeholders only when the
  template chosen is \<open>comment-template.md\<close>. For the run over the changed files
  \<open>src/app.js\<close> and \<open>docs/guide.md\<close>, where \<open>src/app.js\<close> holds the link
  \<open>../docs/guide.md\<close> and the target exists, no link is invalid, the template chosen is
  \<open>all-updated-template.md\<close>, and with no template in \<open>.github\<close> the text posted is the
  built-in text unchanged: \<open>{{LINK_COUNT}}\<close>, \<open>{{BROKEN_LINKS}}\<close> and \<open>{{VALID_LINKS}}\<close>
  are still in it. With \<open>src/app.js\<close> the only changed file the same link gives
  \<open>comment-template.md\<close>, and then no placeholder is left and the text
  \<open>No broken links found.\<close> stands for the empty list of invalid links.
\<close>

theorem default_text_keeps_placeholders:
  "parseFilesForLinks_validating
     (\<lambda>f. if f = ''src/app.js'' then [''../docs/guide.md''] else [])
     (\<lambda>p. True) (\<lambda>u. Reports [Response 200]) ''/home/runner/work/repo''
     [''src/app.js'', ''docs/guide.md'']
   = Resolved [\<lparr>filename = ''src/app.js'',
                links = [\<lparr>url = ''../docs/guide.md'', type = Relative,
                          status = \<lparr>valid = True, message = Some ''File exists'',
                                     statusCode = None,
                                     resolvedPath = Some ''docs/guide.md''\<rparr>\<rparr>]\<rparr>] \<and>
   templateName_validating ''/home/runner/work/repo''
     [\<lparr>filename = ''src/app.js'',
       links = [\<lparr>url = ''../docs/guide.md'', type = Relative,
                 status = \<lparr>valid = True, message = Some ''File exists'',
                            statusCode = None,
                            resolvedPath = Some ''docs/guide.md''\<rparr>\<rparr>]\<rparr>]
     [''src/app.js'', ''docs/guide.md'']
   = ''all-updated-template.md'' \<and>
   main_validating (\<lambda>p. None) None
     (\<lambda>f. if f = ''src/app.js'' then [''../docs/guide.md''] else [])
     (\<lambda>p. True) (\<lambda>u. Reports [Response 200]) ''/home/runner/work/repo''
     ''owner'' ''repo'' ''abc123'' [''src/app.js'', ''docs/guide.md'']
   = Resolved (getDefaultTemplate False) \<and>
   indexOf ''{{LINK_COUNT}}'' (getDefaultTemplate False) = Some 49 \<and>
   indexOf ''{{BROKEN_LINKS}}'' (getDefaultTemplate False) = Some 93 \<and>
   indexOf ''{{VALID_LINKS}}'' (getDefaultTemplate False) = Some 135 \<and>
   (case main_validating (\<lambda>p. None) None
           (\<lambda>f. if f = ''src/app.js'' then [''../docs/guide.md''] else [])
           (\<lambda>p. True) (\<lambda>u. Reports [Response 200]) ''/home/runner/work/repo''
           ''owner'' ''repo'' ''abc123'' [''src/app.js''] of
      Resolved body \<Rightarrow>
        indexOf ''{{LINK_COUNT}}'' body = None \<and>
        indexOf ''{{BROKEN_LINKS}}'' body = None \<and>
        indexOf ''{{VALID_LINKS}}'' body = None \<and>
        indexOf (''No broken links found. '' @ checkMarkButton) body = Some 80
    | Rejected msg \<Rightarrow> False
    | NeverSettled \<Rightarrow> False)"
proof -
  let ?scan = "\<lambda>f. if f = ''src/app.js'' then [''../docs/guide.md''] else []"
  let ?client = "\<lambda>u::string. Reports [Response 200]"
  let ?results = "[\<lparr>filename = ''src/app.js'',
                links = [\<lparr>url = ''../docs/guide.md'', type = Relative,
                          status = \<lparr>valid = True, message = Some ''File exists'',
                                     statusCode = None,
                                     resolvedPath = Some ''docs/guide.md''\<rparr>\<rparr>]\<rparr>]"
  have a: "parseFilesForLinks_validating ?scan (\<lambda>p. True) ?client ''/home/runner/work/repo''
             [''src/app.js'', ''docs/guide.md''] = Resolved ?results"
    by code_simp
  have b: "templateName_validating ''/home/runner/work/repo'' ?results
             [''src/app.js'', ''docs/guide.md''] = ''all-updated-template.md''"
    by code_simp
  from a b have c: "main_validating (\<lambda>p. None) None ?scan (\<lambda>p. True) ?client
             ''/home/runner/work/repo'' ''owner'' ''repo'' ''abc123''
             [''src/app.js'', ''docs/guide.md''] = Resolved (getDefaultTemplate False)"
    by (simp add: main_validating_def postCommentFromTemplate_def)
  have d: "indexOf ''{{LINK_COUNT}}'' (getDefaultTemplate False) = Some 49"
    by code_simp
  have e: "indexOf ''{{BROKEN_LINKS}}'' (getDefaultTemplate False) = Some 93"
    by code_simp
  have f: "indexOf ''{{VALID_LINKS}}'' (getDefaultTemplate False) = Some 135"
    by code_simp
  have g: "(case main_validating (\<lambda>p. None) None ?scan (\<lambda>p. True) ?client
                  ''/home/runner/work/repo'' ''owner'' ''repo'' ''abc123'' [''src/app.js''] of
      Resolved body \<Rightarrow>
        indexOf ''{{LINK_COUNT}}'' body = None \<and>
        indexOf ''{{BROKEN_LINKS}}'' body = None \<and>
        indexOf ''{{VALID_LINKS}}'' body = None \<and>
        indexOf (''No broken links found. '' @ checkMarkButton) body = Some 80
    | Rejected msg \<Rightarrow> False
    | NeverSettled \<Rightarrow> False)"
    by code_simp
  from a b c d e f g show ?thesis by (intro conjI)
qed

section \<open>Facts about the validating script\<close>

lemma onProbeEvent_resolvedPath [simp]: "resolvedPath (onProbeEvent event) = None"
  by (cases event) simp_all

lemma checkLinkValidity_resolvedPath:
  assumes "checkLinkValidity existsSync client cwd link file = Resolved st"
      and "checkLinkValidity existsSync' client' cwd link file = Resolved st'"
  shows "resolvedPath st = resolvedPath st'"
  using assms
  by (auto simp: checkLinkValidity_def Let_def
           split: if_splits ClientResult.splits list.splits)

lemma checkLinks_sameButValidation:
  "checkLinks existsSync client cwd ls file = Resolved sts
     \<Longrightarrow> checkLinks existsSync' client' cwd ls file = Resolved sts'
     \<Longrightarrow> list_all2 sameButValidation sts sts'"
proof (induction ls arbitrary: sts sts')
  case Nil
  then show ?case by simp
next
  case (Cons l ls)
  from Cons.prems(1) obtain st rest where
      v: "checkLinkValidity existsSync client cwd l file = Resolved st"
      and r: "checkLinks existsSync client cwd ls file = Resolved rest"
      and s: "sts = \<lparr>url = l, type = (if startsWith l ''http'' then Absolute else Relative),
                     status = st\<rparr> # rest"
    by (auto split: Promise.splits)
  from Cons.prems(2) obtain st' rest' where
      v': "checkLinkValidity existsSync' client' cwd l file = Resolved st'"
      and r': "checkLinks existsSync' client' cwd ls file = Resolved rest'"
      and s': "sts' = \<lparr>url = l, type = (if startsWith l ''http'' then Absolute else Relative),
                       status = st'\<rparr> # rest'"
    by (auto split: Promise.splits)
  from Cons.IH [OF r r'] checkLinkValidity_resolvedPath [OF v v'] s s'
  show ?case by (simp add: sameButValidation_def)
qed

lemma parseFilesForLinks_validating_same:
  "parseFilesForLinks_validating scan existsSync client cwd files = Resolved rs
     \<Longrightarrow> parseFilesForLinks_validating scan existsSync' client' cwd files = Resolved rs'
     \<Longrightarrow> sameRunButValidation rs rs'"
proof (induction files arbitrary: rs rs')
  case Nil
  then show ?case by (simp add: sameRunButValidation_def)
next
  case (Cons f files)
  show ?case
  proof (cases "scan f = []")
    case True
    with Cons show ?thesis by simp
  next
    case False
    with Cons.prems(1) obtain sts rest where
        c: "checkLinks existsSync client cwd (scan f) f = Resolved sts"
        and r: "parseFilesForLinks_validating scan existsSync client cwd files = Resolved rest"
        and s: "rs = \<lparr>filename = f, links = sts\<rparr> # rest"
      by (auto split: Promise.splits)
    from False Cons.prems(2) obtain sts' rest' where
        c': "checkLinks existsSync' client' cwd (scan f) f = Resolved sts'"
        and r': "parseFilesForLinks_validating scan existsSync' client' cwd files = Resolved rest'"
        and s': "rs' = \<lparr>filename = f, links = sts'\<rparr> # rest'"
      by (auto split: Promise.splits)
    from Cons.IH [OF r r'] checkLinks_sameButValidation [OF c c'] s s'
    show ?thesis by (simp add: sameRunButValidation_def)
  qed
qed

lemma linksUpdated_validating_same:
  "list_all2 sameButValidation ls ls'
     \<Longrightarrow> linksUpdated_validating cwd changedFilePaths ls
           = linksUpdated_validating cwd changedFilePaths ls'"
  by (induction ls ls' rule: list_all2_induct)
     (auto simp: sameButValidation_def split: option.splits)

lemma resultsUpdated_validating_same:
  "sameRunButValidation rs rs'
     \<Longrightarrow> resultsUpdated_validating cwd changedFilePaths rs
           = resultsUpdated_validating cwd changedFilePaths rs'"
  unfolding sameRunButValidation_def
  by (induction rs rs' rule: list_all2_induct)
     (auto dest: linksUpdated_validating_same)

lemma templateName_validating_same:
  assumes "sameRunButValidation rs rs'"
  shows "templateName_validating cwd rs changedFiles
           = templateName_validating cwd rs' changedFiles"
proof -
  from assms have "length rs = length rs'"
    by (auto simp: sameRunButValidation_def dest: list_all2_lengthD)
  then have "rs = [] \<longleftrightarrow> rs' = []" by auto
  with resultsUpdated_validating_same [OF assms] show ?thesis
    by (simp add: templateName_validating_def checkAllLinksUpdated_validating_def)
qed

lemma checkLinkValidity_first_report:
  assumes "startsWith link ''http''" and "client link = Reports (event # later)"
  shows "checkLinkValidity existsSync client cwd link file = Resolved (onProbeEvent event)"
  using assms by (simp add: checkLinkValidity_def)

lemma onProbeEvent_valid_iff:
  "valid (onProbeEvent event) \<longleftrightarrow> (\<exists>code. event = Response code \<and> 200 \<le> code \<and> code \<le> 399)"
  by (cases event) auto

lemma checkLinkValidity_throws:
  assumes "startsWith link ''http''" and "client link = Throws msg"
  shows "checkLinkValidity existsSync client cwd link file = Rejected msg"
  using assms by (simp add: checkLinkValidity_def)

lemma checkLinks_rejected:
  assumes "checkLinkValidity existsSync client cwd link file = Rejected msg"
      and "link \<in> set ls"
      and "\<And>l. l \<in> set ls \<Longrightarrow> checkLinkValidity existsSync client cwd l file \<noteq> NeverSettled"
  shows "\<exists>msg'. checkLinks existsSync client cwd ls file = Rejected msg'"
  using assms(2,3)
proof (induction ls)
  case Nil
  then show ?case by simp
next
  case (Cons l ls)
  show ?case
  proof (cases "checkLinkValidity existsSync client cwd l file")
    case (Resolved st)
    with Cons.prems assms(1) have "link \<in> set ls" by auto
    with Cons have "\<exists>msg'. checkLinks existsSync client cwd ls file = Rejected msg'"
      by simp
    with Resolved show ?thesis by auto
  next
    case (Rejected m)
    then show ?thesis by simp
  next
    case NeverSettled
    with Cons.prems(2) [of l] show ?thesis by simp
  qed
qed

text \<open>
  C3. Validation of a link that begins with \<open>http\<close> does not always end in an outcome:
  for \<open>http://%zz/x\<close>, which the client refuses with the exception \<open>Invalid URL\<close> when
  \<open>client.get\<close> is called, the promise of \<open>checkLinkValidity\<close> is rejected, and so are
  \<open>checkLinks\<close>, \<open>parseFilesForLinks\<close> and \<open>main\<close> for the changed file \<open>src/app.py\<close>
  that holds this link: the exception passes the validation boundary and no comment is
  posted. When the \<open>timeout\<close> event is the first report of the request, the outcome is
  invalid with the message \<open>Timeout\<close>.
\<close>

theorem malformed_url_rejects_validation:
  "checkLinkValidity (\<lambda>p. True)
     (\<lambda>u. if u = ''http://%zz/x'' then Throws ''Invalid URL'' else Reports [Response 200])
     ''/home/runner/work/repo'' ''http://%zz/x'' ''src/app.py''
   = Rejected ''Invalid URL'' \<and>
   checkLinks (\<lambda>p. True)
     (\<lambda>u. if u = ''http://%zz/x'' then Throws ''Invalid URL'' else Reports [Response 200])
     ''/home/runner/work/repo'' [''http://%zz/x''] ''src/app.py''
   = Rejected ''Invalid URL'' \<and>
   parseFilesForLinks_validating
     (\<lambda>f. if f = ''src/app.py'' then [''http://%zz/x''] else [])
     (\<lambda>p. True)
     (\<lambda>u. if u = ''http://%zz/x'' then Throws ''Invalid URL'' else Reports [Response 200])
     ''/home/runner/work/repo'' [''src/app.py'']
   = Rejected ''Invalid URL'' \<and>
   main_validating (\<lambda>p. None) None
     (\<lambda>f. if f = ''src/app.py'' then [''http://%zz/x''] else [])
     (\<lambda>p. True)
     (\<lambda>u. if u = ''http://%zz/x'' then Throws ''Invalid URL'' else Reports [Response 200])
     ''/home/runner/work/repo'' ''owner'' ''repo'' ''abc123'' [''src/app.py'']
   = Rejected ''Invalid URL'' \<and>
   checkLinkValidity (\<lambda>p. True) (\<lambda>u. Reports [TimeoutEvent])
     ''/home/runner/work/repo'' ''http://slow.example.com/'' ''src/app.py''
   = Resolved \<lparr>valid = False, message = Some ''Timeout'', statusCode = None,
                resolvedPath = None\<rparr>"
proof -
  let ?client = "\<lambda>u. if u = ''http://%zz/x'' then Throws ''Invalid URL''
                      else Reports [Response 200]"
  let ?scan = "\<lambda>f. if f = ''src/app.py'' then [''http://%zz/x''] else []"
  have a: "checkLinkValidity (\<lambda>p. True) ?client
             ''/home/runner/work/repo'' ''http://%zz/x'' ''src/app.py''
           = Rejected ''Invalid URL''"
    by code_simp
  then have b: "checkLinks (\<lambda>p. True) ?client
             ''/home/runner/work/repo'' [''http://%zz/x''] ''src/app.py''
           = Rejected ''Invalid URL''"
    by simp
  then have c: "parseFilesForLinks_validating ?scan (\<lambda>p. True) ?client
             ''/home/runner/work/repo'' [''src/app.py''] = Rejected ''Invalid URL''"
    by simp
  then have d: "main_validating (\<lambda>p. None) None ?scan (\<lambda>p. True) ?client
             ''/home/runner/work/repo'' ''owner'' ''repo'' ''abc123'' [''src/app.py'']
           = Rejected ''Invalid URL''"
    by (simp add: main_validating_def)
  have e: "checkLinkValidity (\<lambda>p. True) (\<lambda>u. Reports [TimeoutEvent])
             ''/home/runner/work/repo'' ''http://slow.example.com/'' ''src/app.py''
           = Resolved \<lparr>valid = False, message = Some ''Timeout'', statusCode = None,
                        resolvedPath = None\<rparr>"
    by code_simp
  from a b c d e show ?thesis by (intro conjI)
qed

text \<open>
  C4. A response with a status code from 200 to 399 gives a valid outcome and any other
  response an invalid one, each with the status code: 200, 302 and 399 are valid, 199, 400,
  404 and 599 are not, and \<open>https://api.example.com/missing\<close> answered with 404 gives the
  outcome invalid with status code 404. An \<open>error\<close> event (a refused connection, a failed
  lookup) gives an invalid outcome with the error's message. A malformed URL gives no
  outcome: for \<open>http://%zz/x\<close>, which the client refuses with the exception
  \<open>Invalid URL\<close>, the promise of \<open>checkLinkValidity\<close> is rejected.
\<close>

theorem malformed_url_no_invalid_outcome:
  "map (\<lambda>code. checkLinkValidity (\<lambda>p. False) (\<lambda>u. Reports [Response code])
                  ''/home/runner/work/repo'' ''https://api.example.com/missing'' ''src/app.js'')
     [199, 200, 302, 399, 400, 404, 599]
   = map (\<lambda>(v, code). Resolved \<lparr>valid = v, message = None, statusCode = Some code,
                                 resolvedPath = None\<rparr>)
       [(False, 199), (True, 200), (True, 302), (True, 399), (False, 400), (False, 404),
        (False, 599)] \<and>
   checkLinkValidity (\<lambda>p. False) (\<lambda>u. Reports [ErrorEvent ''connect ECONNREFUSED 127.0.0.1:80''])
     ''/home/runner/work/repo'' ''http://localhost/'' ''src/app.js''
   = Resolved \<lparr>valid = False, message = Some ''connect ECONNREFUSED 127.0.0.1:80'',
                statusCode = None, resolvedPath = None\<rparr> \<and>
   checkLinkValidity (\<lambda>p. False)
     (\<lambda>u. Reports [ErrorEvent ''getaddrinfo ENOTFOUND nowhere.invalid''])
     ''/home/runner/work/repo'' ''https://nowhere.invalid/'' ''src/app.js''
   = Resolved \<lparr>valid = False, message = Some ''getaddrinfo ENOTFOUND nowhere.invalid'',
                statusCode = None, resolvedPath = None\<rparr> \<and>
   checkLinkValidity (\<lambda>p. False)
     (\<lambda>u. if u = ''http://%zz/x'' then Throws ''Invalid URL'' else Reports [Response 404])
     ''/home/runner/work/repo'' ''http://%zz/x'' ''src/app.js''
   = Rejected ''Invalid URL''"
proof -
  have a: "map (\<lambda>code. checkLinkValidity (\<lambda>p. False) (\<lambda>u. Reports [Response code])
                  ''/home/runner/work/repo'' ''https://api.example.com/missing'' ''src/app.js'')
     [199, 200, 302, 399, 400, 404, 599]
   = map (\<lambda>(v, code). Resolved \<lparr>valid = v, message = None, statusCode = Some code,
                                 resolvedPath = None\<rparr>)
       [(False, 199), (True, 200), (True, 302), (True, 399), (False, 400), (False, 404),
        (False, 599)]"
    by (simp add: checkLinkValidity_def startsWith_def)
  have b: "checkLinkValidity (\<lambda>p. False)
     (\<lambda>u. Reports [ErrorEvent ''connect ECONNREFUSED 127.0.0.1:80''])
     ''/home/runner/work/repo'' ''http://localhost/'' ''src/app.js''
   = Resolved \<lparr>valid = False, message = Some ''connect ECONNREFUSED 127.0.0.1:80'',
                statusCode = None, resolvedPath = None\<rparr>"
    by (simp add: checkLinkValidity_def startsWith_def)
  have c: "checkLinkValidity (\<lambda>p. False)
     (\<lambda>u. Reports [ErrorEvent ''getaddrinfo ENOTFOUND nowhere.invalid''])
     ''/home/runner/work/repo'' ''https://nowhere.invalid/'' ''src/app.js''
   = Resolved \<lparr>valid = False, message = Some ''getaddrinfo ENOTFOUND nowhere.invalid'',
                statusCode = None, resolvedPath = None\<rparr>"
    by (simp add: checkLinkValidity_def startsWith_def)
  have d: "checkLinkValidity (\<lambda>p. False)
     (\<lambda>u. if u = ''http://%zz/x'' then Throws ''Invalid URL'' else Reports [Response 404])
     ''/home/runner/work/repo'' ''http://%zz/x'' ''src/app.js''
   = Rejected ''Invalid URL''"
    by (simp add: checkLinkValidity_def startsWith_def)
  from a b c d show ?thesis by (intro conjI)
qed

text \<open>
  C10. The template chosen by the validating script does not depend only on the kind of
  each link and on whether its resolved path is among the changed files: a Relative link
  whose resolved path is the empty string is passed over. With \<open>app.py\<close> the only changed
  file, the link \<open>./.\<close> found in it resolves to the working directory, its resolved path
  is the empty string, it is not among the changed files, and the template chosen is
  \<open>all-updated-template.md\<close>; the link \<open>./x.md\<close> in its place, Relative as well and not
  among the changed files either, gives \<open>comment-template.md\<close>. \<open>src/check-links.ts\<close>
  gives Pending for both.
\<close>

theorem empty_resolved_path_skips_membership:
  "parseFilesForLinks_validating (\<lambda>f. if f = ''app.py'' then [''./.''] else [])
     (\<lambda>p. True) (\<lambda>u. Reports [Response 200]) ''/home/runner/work/repo'' [''app.py'']
   = Resolved [\<lparr>filename = ''app.py'',
                links = [\<lparr>url = ''./.'', type = Relative,
                          status = \<lparr>valid = True, message = Some ''File exists'',
                                     statusCode = None, resolvedPath = Some []\<rparr>\<rparr>]\<rparr>] \<and>
   templateName_validating ''/home/runner/work/repo''
     [\<lparr>filename = ''app.py'',
       links = [\<lparr>url = ''./.'', type = Relative,
                 status = \<lparr>valid = True, message = Some ''File exists'',
                            statusCode = None, resolvedPath = Some []\<rparr>\<rparr>]\<rparr>]
     [''app.py'']
   = ''all-updated-template.md'' \<and>
   touched ''/home/runner/work/repo'' [''app.py''] ''app.py'' ''./.'' = False \<and>
   parseFilesForLinks_validating (\<lambda>f. if f = ''app.py'' then [''./x.md''] else [])
     (\<lambda>p. True) (\<lambda>u. Reports [Response 200]) ''/home/runner/work/repo'' [''app.py'']
   = Resolved [\<lparr>filename = ''app.py'',
                links = [\<lparr>url = ''./x.md'', type = Relative,
                          status = \<lparr>valid = True, message = Some ''File exists'',
                                     statusCode = None, resolvedPath = Some ''x.md''\<rparr>\<rparr>]\<rparr>] \<and>
   templateName_validating ''/home/runner/work/repo''
     [\<lparr>filename = ''app.py'',
       links = [\<lparr>url = ''./x.md'', type = Relative,
                 status = \<lparr>valid = True, message = Some ''File exists'',
                            statusCode = None, resolvedPath = Some ''x.md''\<rparr>\<rparr>]\<rparr>]
     [''app.py'']
   = ''comment-template.md'' \<and>
   touched ''/home/runner/work/repo'' [''app.py''] ''app.py'' ''./x.md'' = False \<and>
   chosenTemplate ''/home/runner/work/repo''
     [\<lparr>filename = ''app.py'', links = [\<lparr>url = ''./.'', type = Relative\<rparr>]\<rparr>] [''app.py'']
   = Pending \<and>
   chosenTemplate ''/home/runner/work/repo''
     [\<lparr>filename = ''app.py'', links = [\<lparr>url = ''./x.md'', type = Relative\<rparr>]\<rparr>] [''app.py'']
   = Pending"
proof -
  have a: "parseFilesForLinks_validating (\<lambda>f. if f = ''app.py'' then [''./.''] else [])
     (\<lambda>p. True) (\<lambda>u. Reports [Response 200]) ''/home/runner/work/repo'' [''app.py'']
   = Resolved [\<lparr>filename = ''app.py'',
                links = [\<lparr>url = ''./.'', type = Relative,
                          status = \<lparr>valid = True, message = Some ''File exists'',
                                     statusCode = None, resolvedPath = Some []\<rparr>\<rparr>]\<rparr>]"
    by code_simp
  have b: "templateName_validating ''/home/runner/work/repo''
     [\<lparr>filename = ''app.py'',
       links = [\<lparr>url = ''./.'', type = Relative,
                 status = \<lparr>valid = True, message = Some ''File exists'',
                            statusCode = None, resolvedPath = Some []\<rparr>\<rparr>]\<rparr>]
     [''app.py'']
   = ''all-updated-template.md''"
    by code_simp
  have c: "touched ''/home/runner/work/repo'' [''app.py''] ''app.py'' ''./.'' = False"
    by code_simp
  have d: "parseFilesForLinks_validating (\<lambda>f. if f = ''app.py'' then [''./x.md''] else [])
     (\<lambda>p. True) (\<lambda>u. Reports [Response 200]) ''/home/runner/work/repo'' [''app.py'']
   = Resolved [\<lparr>filename = ''app.py'',
                links = [\<lparr>url = ''./x.md'', type = Relative,
                          status = \<lparr>valid = True, message = Some ''File exists'',
                                     statusCode = None, resolvedPath = Some ''x.md''\<rparr>\<rparr>]\<rparr>]"
    by code_simp
  have e: "templateName_validating ''/home/runner/work/repo''
     [\<lparr>filename = ''app.py'',
       links = [\<lparr>url = ''./x.md'', type = Relative,
                 status = \<lparr>valid = True, message = Some ''File exists'',
                            statusCode = None, resolvedPath = Some ''x.md''\<rparr>\<rparr>]\<rparr>]
     [''app.py'']
   = ''comment-template.md''"
    by code_simp
  have f: "touched ''/home/runner/work/repo'' [''app.py''] ''app.py'' ''./x.md'' = False"
    by code_simp
  have g: "chosenTemplate ''/home/runner/work/repo''
     [\<lparr>filename = ''app.py'', links = [\<lparr>url = ''./.'', type = Relative\<rparr>]\<rparr>] [''app.py'']
   = Pending"
    by code_simp
  have h: "chosenTemplate ''/home/runner/work/repo''
     [\<lparr>filename = ''app.py'', links = [\<lparr>url = ''./x.md'', type = Relative\<rparr>]\<rparr>] [''app.py'']
   = Pending"
    by code_simp
  from a b c d e f g h show ?thesis by (intro conjI)
qed

end
